theory Spec2Isabelle
  imports Complex_Main "HOL-Library.Multiset"
begin

section \<open>Python values used by the screener\<close>

text \<open>
  The screener computes with Python floats. A float is modelled by its value: a finite
  number, one of the two infinities, or NaN. Finite values are rationals. In the
  metrics calculator the finite results are the exact quotients, so rounding and
  overflow of the ratios are outside the model; what the model keeps there is everything
  the scoring code branches on: the order of values, the infinite sentinels, and NaN,
  for which every comparison is false. The score of a custom strategy is different: it
  is itself a float that is returned and compared with the threshold, so its division
  and its multiplication are rounded to the nearest double (\<open>round_double\<close> below).
  Python integers that flow into float positions (the literal \<open>0\<close> returned by some
  guards) are the same finite values.
\<close>

datatype pyfloat = NInf | Fin rat | PInf | NaN

text \<open>The comparisons \<open><\<close>, \<open><=\<close>, \<open>>\<close>, \<open>>=\<close> of Python on floats.\<close>

fun flt :: "pyfloat \<Rightarrow> pyfloat \<Rightarrow> bool" where
  "flt NaN _ = False"
| "flt _ NaN = False"
| "flt _ NInf = False"
| "flt NInf _ = True"
| "flt PInf _ = False"
| "flt (Fin a) PInf = True"
| "flt (Fin a) (Fin b) = (a < b)"

fun fle :: "pyfloat \<Rightarrow> pyfloat \<Rightarrow> bool" where
  "fle NaN _ = False"
| "fle _ NaN = False"
| "fle NInf _ = True"
| "fle _ PInf = True"
| "fle PInf _ = False"
| "fle (Fin a) NInf = False"
| "fle (Fin a) (Fin b) = (a \<le> b)"

definition fgt :: "pyfloat \<Rightarrow> pyfloat \<Rightarrow> bool" where
  "fgt a b = flt b a"

definition fge :: "pyfloat \<Rightarrow> pyfloat \<Rightarrow> bool" where
  "fge a b = fle b a"

text \<open>Exceptions of the Python runtime that the modelled code can raise.\<close>

datatype py_error = ValueError string | ZeroDivisionError | TypeError

text \<open>
  Float division \<open>a / b\<close>: Python raises ZeroDivisionError for a zero divisor, whatever
  the dividend is; everything else follows IEEE 754.
\<close>

fun py_div :: "pyfloat \<Rightarrow> pyfloat \<Rightarrow> py_error + pyfloat" where
  "py_div a (Fin b) =
     (if b = 0 then Inl ZeroDivisionError
      else case a of
             NaN \<Rightarrow> Inr NaN
           | Fin x \<Rightarrow> Inr (Fin (x / b))
           | PInf \<Rightarrow> Inr (if 0 < b then PInf else NInf)
           | NInf \<Rightarrow> Inr (if 0 < b then NInf else PInf))"
| "py_div (Fin x) PInf = Inr (Fin 0)"
| "py_div (Fin x) NInf = Inr (Fin 0)"
| "py_div a b = Inr NaN"

fun fmul :: "pyfloat \<Rightarrow> pyfloat \<Rightarrow> pyfloat" where
  "fmul (Fin a) (Fin b) = Fin (a * b)"
| "fmul NaN _ = NaN"
| "fmul _ NaN = NaN"
| "fmul PInf (Fin b) = (if 0 < b then PInf else if b < 0 then NInf else NaN)"
| "fmul NInf (Fin b) = (if 0 < b then NInf else if b < 0 then PInf else NaN)"
| "fmul (Fin a) PInf = (if 0 < a then PInf else if a < 0 then NInf else NaN)"
| "fmul (Fin a) NInf = (if 0 < a then NInf else if a < 0 then PInf else NaN)"
| "fmul PInf PInf = PInf"
| "fmul NInf NInf = PInf"
| "fmul PInf NInf = NInf"
| "fmul NInf PInf = NInf"

fun fsub :: "pyfloat \<Rightarrow> pyfloat \<Rightarrow> pyfloat" where
  "fsub (Fin a) (Fin b) = Fin (a - b)"
| "fsub NaN _ = NaN"
| "fsub _ NaN = NaN"
| "fsub PInf PInf = NaN"
| "fsub NInf NInf = NaN"
| "fsub PInf _ = PInf"
| "fsub NInf _ = NInf"
| "fsub (Fin a) PInf = NInf"
| "fsub (Fin a) NInf = PInf"

text \<open>Sequencing of computations that may raise: the first exception wins.\<close>

definition then_py :: "py_error + 'a \<Rightarrow> ('a \<Rightarrow> py_error + 'b) \<Rightarrow> py_error + 'b" where
  "then_py r f = (case r of Inl e \<Rightarrow> Inl e | Inr v \<Rightarrow> f v)"

section \<open>Data model (core.py)\<close>

datatype ScreeningStrategy =
    VALUE_INVESTING
  | GROWTH_INVESTING
  | DIVIDEND_INVESTING
  | MOMENTUM_INVESTING
  | QUALITY_INVESTING
  | CONTRARIAN

record StockData =
  symbol :: string
  price :: pyfloat
  eps :: pyfloat
  revenue :: pyfloat
  net_income :: pyfloat
  total_assets :: pyfloat
  total_liabilities :: pyfloat
  cash :: pyfloat
  debt :: pyfloat
  shares_outstanding :: int
  market_cap :: pyfloat
  dividend_per_share :: pyfloat
  book_value_per_share :: pyfloat
  revenue_growth :: pyfloat
  earnings_growth :: pyfloat
  dividend_yield :: pyfloat
  sd_pe_ratio :: "pyfloat option"
  sd_pb_ratio :: "pyfloat option"
  sd_peg_ratio :: "pyfloat option"
  sd_roe :: "pyfloat option"
  sd_roa :: "pyfloat option"
  sd_debt_to_equity :: "pyfloat option"
  sd_current_ratio :: "pyfloat option"
  sd_quick_ratio :: "pyfloat option"
  sd_debt_to_assets :: "pyfloat option"
  sd_interest_coverage :: "pyfloat option"

text \<open>
  The metrics dictionary built by \<open>calculate_all_metrics\<close> always has the same 25 keys,
  assigned in the order below; it is a record with one field per key. Fields whose key
  is also a field name of \<open>StockData\<close> carry the prefix \<open>m_\<close>. Lookup by key name,
  which only the criteria filter needs, is \<open>metrics_get\<close> further down.
\<close>

record Metrics =
  pe_ratio :: pyfloat
  pb_ratio :: pyfloat
  peg_ratio :: pyfloat
  price_to_sales :: pyfloat
  roe :: pyfloat
  roa :: pyfloat
  net_margin :: pyfloat
  gross_margin :: pyfloat
  operating_margin :: pyfloat
  roic :: pyfloat
  asset_turnover :: pyfloat
  equity_multiplier :: pyfloat
  current_ratio :: pyfloat
  quick_ratio :: pyfloat
  cash_ratio :: pyfloat
  debt_to_equity :: pyfloat
  debt_to_assets :: pyfloat
  equity_ratio :: pyfloat
  interest_coverage :: pyfloat
  m_revenue_growth :: pyfloat
  m_earnings_growth :: pyfloat
  m_dividend_yield :: pyfloat
  m_eps :: pyfloat
  m_book_value_per_share :: pyfloat
  m_dividend_per_share :: pyfloat

section \<open>MetricsCalculator\<close>

text \<open>
  The static methods \<open>_calculate_*\<close> (Isabelle names cannot begin with an underscore).
  Each returns the ratio or the exception the division raises.
\<close>

definition calculate_pe_ratio :: "StockData \<Rightarrow> py_error + pyfloat" where
  "calculate_pe_ratio stock =
     (if fle (eps stock) (Fin 0) then Inr PInf
      else py_div (price stock) (eps stock))"

definition calculate_pb_ratio :: "StockData \<Rightarrow> py_error + pyfloat" where
  "calculate_pb_ratio stock =
     (if fle (book_value_per_share stock) (Fin 0) then Inr PInf
      else py_div (price stock) (book_value_per_share stock))"

definition calculate_peg_ratio :: "StockData \<Rightarrow> py_error + pyfloat" where
  "calculate_peg_ratio stock =
     then_py (if fgt (eps stock) (Fin 0) then py_div (price stock) (eps stock) else Inr PInf)
       (\<lambda>pe. if fle (earnings_growth stock) (Fin 0) then Inr PInf
             else py_div pe (earnings_growth stock))"

definition calculate_price_to_sales :: "StockData \<Rightarrow> py_error + pyfloat" where
  "calculate_price_to_sales stock =
     (if fle (revenue stock) (Fin 0) then Inr PInf
      else py_div (market_cap stock) (revenue stock))"

definition calculate_roe :: "StockData \<Rightarrow> py_error + pyfloat" where
  "calculate_roe stock =
     (let equity = fsub (total_assets stock) (total_liabilities stock)
      in if fle equity (Fin 0) then Inr (Fin 0)
         else then_py (py_div (net_income stock) equity) (\<lambda>q. Inr (fmul q (Fin 100))))"

definition calculate_roa :: "StockData \<Rightarrow> py_error + pyfloat" where
  "calculate_roa stock =
     (if fle (total_assets stock) (Fin 0) then Inr (Fin 0)
      else then_py (py_div (net_income stock) (total_assets stock))
             (\<lambda>q. Inr (fmul q (Fin 100))))"

definition calculate_net_margin :: "StockData \<Rightarrow> py_error + pyfloat" where
  "calculate_net_margin stock =
     (if fle (revenue stock) (Fin 0) then Inr (Fin 0)
      else then_py (py_div (net_income stock) (revenue stock))
             (\<lambda>q. Inr (fmul q (Fin 100))))"

definition calculate_gross_margin :: "StockData \<Rightarrow> py_error + pyfloat" where
  "calculate_gross_margin stock =
     (if fle (revenue stock) (Fin 0) then Inr (Fin 0)
      else then_py (py_div (net_income stock) (revenue stock))
             (\<lambda>q. Inr (fmul q (Fin 100))))"

definition calculate_operating_margin :: "StockData \<Rightarrow> py_error + pyfloat" where
  "calculate_operating_margin stock =
     (if fle (revenue stock) (Fin 0) then Inr (Fin 0)
      else then_py (py_div (net_income stock) (revenue stock))
             (\<lambda>q. Inr (fmul q (Fin 100))))"

definition calculate_roic :: "StockData \<Rightarrow> py_error + pyfloat" where
  "calculate_roic stock =
     (let invested_capital =
            fsub (total_assets stock)
              (fsub (fsub (total_assets stock) (total_liabilities stock)) (cash stock))
      in if fle invested_capital (Fin 0) then Inr (Fin 0)
         else then_py (py_div (net_income stock) invested_capital)
                (\<lambda>q. Inr (fmul q (Fin 100))))"

definition calculate_asset_turnover :: "StockData \<Rightarrow> py_error + pyfloat" where
  "calculate_asset_turnover stock =
     (if fle (total_assets stock) (Fin 0) then Inr (Fin 0)
      else py_div (revenue stock) (total_assets stock))"

definition calculate_equity_multiplier :: "StockData \<Rightarrow> py_error + pyfloat" where
  "calculate_equity_multiplier stock =
     (let equity = fsub (total_assets stock) (total_liabilities stock)
      in if fle equity (Fin 0) then Inr (Fin 0)
         else py_div (total_assets stock) equity)"

definition calculate_current_ratio :: "StockData \<Rightarrow> py_error + pyfloat" where
  "calculate_current_ratio stock =
     (if fle (total_liabilities stock) (Fin 0) then Inr PInf
      else py_div (cash stock) (total_liabilities stock))"

definition calculate_quick_ratio :: "StockData \<Rightarrow> py_error + pyfloat" where
  "calculate_quick_ratio stock =
     (if fle (total_liabilities stock) (Fin 0) then Inr PInf
      else py_div (cash stock) (total_liabilities stock))"

definition calculate_cash_ratio :: "StockData \<Rightarrow> py_error + pyfloat" where
  "calculate_cash_ratio stock =
     (if fle (total_liabilities stock) (Fin 0) then Inr PInf
      else py_div (cash stock) (total_liabilities stock))"

definition calculate_debt_to_equity :: "StockData \<Rightarrow> py_error + pyfloat" where
  "calculate_debt_to_equity stock =
     (let equity = fsub (total_assets stock) (total_liabilities stock)
      in if fle equity (Fin 0) then Inr PInf
         else py_div (debt stock) equity)"

definition calculate_debt_to_assets :: "StockData \<Rightarrow> py_error + pyfloat" where
  "calculate_debt_to_assets stock =
     (if fle (total_assets stock) (Fin 0) then Inr (Fin 0)
      else py_div (debt stock) (total_assets stock))"

definition calculate_equity_ratio :: "StockData \<Rightarrow> py_error + pyfloat" where
  "calculate_equity_ratio stock =
     (if fle (total_assets stock) (Fin 0) then Inr (Fin 0)
      else let equity = fsub (total_assets stock) (total_liabilities stock)
           in then_py (py_div equity (total_assets stock)) (\<lambda>q. Inr (fmul q (Fin 100))))"

definition calculate_interest_coverage :: "StockData \<Rightarrow> py_error + pyfloat" where
  "calculate_interest_coverage stock =
     (if fle (debt stock) (Fin 0) then Inr PInf
      else let interest_expense = fmul (debt stock) (Fin (1 / 20))
           in if fle interest_expense (Fin 0) then Inr PInf
              else py_div (net_income stock) interest_expense)"

definition calculate_all_metrics :: "StockData \<Rightarrow> py_error + Metrics" where
  "calculate_all_metrics stock =
     then_py (calculate_pe_ratio stock) (\<lambda>v_pe.
     then_py (calculate_pb_ratio stock) (\<lambda>v_pb.
     then_py (calculate_peg_ratio stock) (\<lambda>v_peg.
     then_py (calculate_price_to_sales stock) (\<lambda>v_ps.
     then_py (calculate_roe stock) (\<lambda>v_roe.
     then_py (calculate_roa stock) (\<lambda>v_roa.
     then_py (calculate_net_margin stock) (\<lambda>v_nm.
     then_py (calculate_gross_margin stock) (\<lambda>v_gm.
     then_py (calculate_operating_margin stock) (\<lambda>v_om.
     then_py (calculate_roic stock) (\<lambda>v_roic.
     then_py (calculate_asset_turnover stock) (\<lambda>v_at.
     then_py (calculate_equity_multiplier stock) (\<lambda>v_em.
     then_py (calculate_current_ratio stock) (\<lambda>v_cur.
     then_py (calculate_quick_ratio stock) (\<lambda>v_quick.
     then_py (calculate_cash_ratio stock) (\<lambda>v_cash.
     then_py (calculate_debt_to_equity stock) (\<lambda>v_de.
     then_py (calculate_debt_to_assets stock) (\<lambda>v_da.
     then_py (calculate_equity_ratio stock) (\<lambda>v_er.
     then_py (calculate_interest_coverage stock) (\<lambda>v_ic.
       Inr \<lparr> pe_ratio = v_pe, pb_ratio = v_pb, peg_ratio = v_peg, price_to_sales = v_ps,
             roe = v_roe, roa = v_roa, net_margin = v_nm, gross_margin = v_gm,
             operating_margin = v_om, roic = v_roic,
             asset_turnover = v_at, equity_multiplier = v_em,
             current_ratio = v_cur, quick_ratio = v_quick, cash_ratio = v_cash,
             debt_to_equity = v_de, debt_to_assets = v_da, equity_ratio = v_er,
             interest_coverage = v_ic,
             m_revenue_growth = revenue_growth stock,
             m_earnings_growth = earnings_growth stock,
             m_dividend_yield = dividend_yield stock,
             m_eps = eps stock,
             m_book_value_per_share = book_value_per_share stock,
             m_dividend_per_share = dividend_per_share stock \<rparr>)))))))))))))))))))"

section \<open>StockAnalyzer\<close>

record Analysis =
  a_symbol :: string
  a_metrics :: Metrics
  a_signals :: "string list"
  risk_score :: int
  fundamental_strength :: string
  valuation_score :: int
  quality_score :: int
  growth_score :: int
  momentum_score :: int

definition generate_signals :: "StockData \<Rightarrow> Metrics \<Rightarrow> string list" where
  "generate_signals stock metrics =
     (let signals = [];
          signals = (if flt (pe_ratio metrics) (Fin 15) then signals @ [''UNDERVALUED_PE'']
                     else if fgt (pe_ratio metrics) (Fin 30) then signals @ [''OVERVALUED_PE'']
                     else signals);
          signals = (if flt (pb_ratio metrics) (Fin 1) then signals @ [''UNDERVALUED_BOOK'']
                     else if fgt (pb_ratio metrics) (Fin 3) then signals @ [''OVERVALUED_BOOK'']
                     else signals);
          signals = (if fgt (roe metrics) (Fin 15) then signals @ [''HIGH_ROE''] else signals);
          signals = (if fgt (roa metrics) (Fin 10) then signals @ [''HIGH_ROA''] else signals);
          signals = (if fgt (net_margin metrics) (Fin 20) then signals @ [''HIGH_MARGIN'']
                     else signals);
          signals = (if fgt (revenue_growth stock) (Fin 20)
                     then signals @ [''HIGH_REVENUE_GROWTH''] else signals);
          signals = (if fgt (earnings_growth stock) (Fin 20)
                     then signals @ [''HIGH_EARNINGS_GROWTH''] else signals);
          signals = (if fgt (dividend_yield stock) (Fin 3)
                     then signals @ [''HIGH_DIVIDEND_YIELD'']
                     else if fgt (dividend_yield stock) (Fin 0)
                     then signals @ [''PAYS_DIVIDEND'']
                     else signals);
          signals = (if fgt (current_ratio metrics) (Fin 2)
                     then signals @ [''STRONG_LIQUIDITY'']
                     else if flt (current_ratio metrics) (Fin 1)
                     then signals @ [''WEAK_LIQUIDITY'']
                     else signals);
          signals = (if flt (debt_to_equity metrics) (Fin (1 / 2)) then signals @ [''LOW_DEBT'']
                     else if fgt (debt_to_equity metrics) (Fin 2) then signals @ [''HIGH_DEBT'']
                     else signals)
      in signals)"

definition calculate_risk_score :: "StockData \<Rightarrow> Metrics \<Rightarrow> int" where
  "calculate_risk_score stock metrics =
     (let risk_score = 0;
          risk_score = (if flt (current_ratio metrics) (Fin 1) then risk_score + 25
                        else if flt (current_ratio metrics) (Fin (3 / 2)) then risk_score + 10
                        else risk_score);
          risk_score = (if fgt (debt_to_equity metrics) (Fin 2) then risk_score + 25
                        else if fgt (debt_to_equity metrics) (Fin 1) then risk_score + 10
                        else risk_score);
          risk_score = (if flt (roe metrics) (Fin 5) then risk_score + 20
                        else if flt (roe metrics) (Fin 10) then risk_score + 10
                        else risk_score);
          risk_score = (if flt (revenue_growth stock) (Fin (- 10)) then risk_score + 15
                        else if flt (revenue_growth stock) (Fin 0) then risk_score + 5
                        else risk_score)
      in min 100 (max 0 risk_score))"

definition assess_fundamental_strength :: "StockData \<Rightarrow> Metrics \<Rightarrow> string" where
  "assess_fundamental_strength stock metrics =
     (let v_roe = roe metrics;
          v_debt_to_equity = debt_to_equity metrics;
          v_current_ratio = current_ratio metrics;
          v_revenue_growth = revenue_growth stock;
          strength_score = (0::int);
          strength_score = (if fgt v_roe (Fin 15) then strength_score + 25
                            else if fgt v_roe (Fin 10) then strength_score + 15
                            else if fgt v_roe (Fin 5) then strength_score + 5
                            else strength_score);
          strength_score = (if flt v_debt_to_equity (Fin (1 / 2)) then strength_score + 25
                            else if flt v_debt_to_equity (Fin 1) then strength_score + 15
                            else if flt v_debt_to_equity (Fin 2) then strength_score + 5
                            else strength_score);
          strength_score = (if fgt v_current_ratio (Fin (3 / 2)) then strength_score + 25
                            else if fgt v_current_ratio (Fin 1) then strength_score + 15
                            else strength_score);
          strength_score = (if fgt v_revenue_growth (Fin 10) then strength_score + 25
                            else if fgt v_revenue_growth (Fin 5) then strength_score + 15
                            else if fgt v_revenue_growth (Fin 0) then strength_score + 5
                            else strength_score)
      in if strength_score \<ge> 80 then ''VERY_STRONG''
         else if strength_score \<ge> 60 then ''STRONG''
         else if strength_score \<ge> 40 then ''MODERATE''
         else if strength_score \<ge> 20 then ''WEAK''
         else ''VERY_WEAK'')"

definition calculate_valuation_score :: "Metrics \<Rightarrow> int" where
  "calculate_valuation_score metrics =
     (let score = 50;
          v_pe_ratio = pe_ratio metrics;
          v_pb_ratio = pb_ratio metrics;
          ps_ratio = price_to_sales metrics;
          score = (if flt v_pe_ratio (Fin 10) then score + 20
                   else if flt v_pe_ratio (Fin 15) then score + 15
                   else if flt v_pe_ratio (Fin 20) then score + 10
                   else if flt v_pe_ratio (Fin 30) then score + 5
                   else score - 20);
          score = (if flt v_pb_ratio (Fin 1) then score + 20
                   else if flt v_pb_ratio (Fin (3 / 2)) then score + 10
                   else if flt v_pb_ratio (Fin (5 / 2)) then score + 5
                   else score - 10);
          score = (if flt ps_ratio (Fin 1) then score + 10
                   else if flt ps_ratio (Fin 2) then score + 5
                   else score)
      in min 100 (max 0 score))"

definition calculate_quality_score :: "Metrics \<Rightarrow> int" where
  "calculate_quality_score metrics =
     (let score = 50;
          score = (if fgt (roe metrics) (Fin 20) then score + 20
                   else if fgt (roe metrics) (Fin 15) then score + 15
                   else if fgt (roe metrics) (Fin 10) then score + 10
                   else score);
          score = (if fgt (roa metrics) (Fin 10) then score + 15
                   else if fgt (roa metrics) (Fin 5) then score + 10
                   else score);
          score = (if fgt (net_margin metrics) (Fin 20) then score + 15
                   else if fgt (net_margin metrics) (Fin 10) then score + 10
                   else score);
          score = (if flt (debt_to_equity metrics) (Fin (1 / 2)) then score + 20
                   else if flt (debt_to_equity metrics) (Fin 1) then score + 10
                   else if fgt (debt_to_equity metrics) (Fin 2) then score - 15
                   else score);
          score = (if fgt (current_ratio metrics) (Fin 2) then score + 10
                   else if flt (current_ratio metrics) (Fin 1) then score - 20
                   else score)
      in min 100 (max 0 score))"

definition calculate_growth_score :: "StockData \<Rightarrow> Metrics \<Rightarrow> int" where
  "calculate_growth_score stock metrics =
     (let score = 50;
          score = (if fgt (revenue_growth stock) (Fin 30) then score + 25
                   else if fgt (revenue_growth stock) (Fin 20) then score + 20
                   else if fgt (revenue_growth stock) (Fin 10) then score + 15
                   else if fgt (revenue_growth stock) (Fin 5) then score + 10
                   else if flt (revenue_growth stock) (Fin 0) then score - 25
                   else score);
          score = (if fgt (earnings_growth stock) (Fin 30) then score + 25
                   else if fgt (earnings_growth stock) (Fin 20) then score + 20
                   else if fgt (earnings_growth stock) (Fin 10) then score + 15
                   else if fgt (earnings_growth stock) (Fin 5) then score + 10
                   else if flt (earnings_growth stock) (Fin 0) then score - 25
                   else score);
          peg = peg_ratio metrics;
          score = (if flt peg (Fin 1) \<and> fgt (earnings_growth stock) (Fin 0) then score + 20
                   else if flt peg (Fin 2) \<and> fgt (earnings_growth stock) (Fin 0) then score + 10
                   else score)
      in min 100 (max 0 score))"

definition calculate_momentum_score :: "StockData \<Rightarrow> int" where
  "calculate_momentum_score stock =
     (let score = 50;
          score = (if fgt (revenue_growth stock) (Fin 15) then score + 25 else score);
          score = (if fgt (earnings_growth stock) (Fin 15) then score + 25 else score)
      in min 100 (max 0 score))"

definition analyze :: "StockData \<Rightarrow> py_error + Analysis" where
  "analyze stock =
     (case calculate_all_metrics stock of
        Inl e \<Rightarrow> Inl e
      | Inr metrics \<Rightarrow>
          Inr \<lparr> a_symbol = symbol stock,
                a_metrics = metrics,
                a_signals = generate_signals stock metrics,
                risk_score = calculate_risk_score stock metrics,
                fundamental_strength = assess_fundamental_strength stock metrics,
                valuation_score = calculate_valuation_score metrics,
                quality_score = calculate_quality_score metrics,
                growth_score = calculate_growth_score stock metrics,
                momentum_score = calculate_momentum_score stock \<rparr>)"

section \<open>ScreeningEngine\<close>

text \<open>
  The \<open>strategy\<close> argument of \<open>screen\<close> is annotated with the enumeration, but Python
  does not enforce the annotation and the method itself handles a key that is not in its
  table. \<open>Member k\<close> is a member of the enumeration; \<open>Other s\<close> stands for any other
  hashable value a caller may pass (for instance the string \<open>"value_investing"\<close>), named
  by the text it prints as.
\<close>

datatype strategy_arg = Member ScreeningStrategy | Other string

text \<open>
  A screening result. Its \<open>timestamp\<close> field is a reading of the wall clock
  (\<open>datetime.utcnow()\<close>); it takes no part in filtering or ordering and is left out.
  The score of a built-in strategy is a Python integer, that of a custom strategy a
  finite float; both are rationals here.
\<close>

record ScreeningResult =
  r_symbol :: string
  score :: rat
  strategy :: strategy_arg
  r_metrics :: Metrics
  r_signals :: "string list"

type_synonym scorer = "StockData \<Rightarrow> Analysis \<Rightarrow> int \<times> string list"

definition screen_value :: scorer where
  "screen_value stock analysis =
     (let score = 0; signals = [];
          v_pe_ratio = pe_ratio (a_metrics analysis);
          v_pb_ratio = pb_ratio (a_metrics analysis);
          ps_ratio = price_to_sales (a_metrics analysis);
          v_roe = roe (a_metrics analysis);
          (score, signals) =
            (if flt v_pe_ratio (Fin 10) then (score + 30, signals @ [''VERY_LOW_PE''])
             else if flt v_pe_ratio (Fin 15) then (score + 20, signals @ [''LOW_PE''])
             else if flt v_pe_ratio (Fin 20) then (score + 10, signals)
             else (score, signals));
          (score, signals) =
            (if flt v_pb_ratio (Fin 1) then (score + 25, signals @ [''LOW_PB''])
             else if flt v_pb_ratio (Fin (3 / 2)) then (score + 15, signals)
             else (score, signals));
          (score, signals) =
            (if flt ps_ratio (Fin 1) then (score + 15, signals @ [''LOW_PS''])
             else if flt ps_ratio (Fin 2) then (score + 10, signals)
             else (score, signals));
          (score, signals) =
            (if fgt v_roe (Fin 10) then (score + 20, signals @ [''DECENT_ROE''])
             else (score, signals));
          score = (if fge (earnings_growth stock) (Fin 0) then score + 10 else score)
      in (min 100 score, signals))"

definition screen_growth :: scorer where
  "screen_growth stock analysis =
     (let score = 0; signals = [];
          v_revenue_growth = revenue_growth stock;
          v_earnings_growth = earnings_growth stock;
          v_peg_ratio = peg_ratio (a_metrics analysis);
          v_roe = roe (a_metrics analysis);
          (score, signals) =
            (if fgt v_revenue_growth (Fin 30)
             then (score + 30, signals @ [''VERY_HIGH_REVENUE_GROWTH''])
             else if fgt v_revenue_growth (Fin 20)
             then (score + 25, signals @ [''HIGH_REVENUE_GROWTH''])
             else if fgt v_revenue_growth (Fin 10) then (score + 15, signals)
             else (score, signals));
          (score, signals) =
            (if fgt v_earnings_growth (Fin 30)
             then (score + 30, signals @ [''VERY_HIGH_EARNINGS_GROWTH''])
             else if fgt v_earnings_growth (Fin 20)
             then (score + 25, signals @ [''HIGH_EARNINGS_GROWTH''])
             else if fgt v_earnings_growth (Fin 10) then (score + 15, signals)
             else (score, signals));
          (score, signals) =
            (if flt v_peg_ratio (Fin 1) then (score + 20, signals @ [''GOOD_PEG''])
             else if flt v_peg_ratio (Fin 2) then (score + 10, signals)
             else (score, signals));
          score = (if fgt v_roe (Fin 15) then score + 15 else score)
      in (min 100 score, signals))"

definition screen_dividend :: scorer where
  "screen_dividend stock analysis =
     (let score = 0; signals = [];
          v_dividend_yield = dividend_yield stock;
          dps = dividend_per_share stock;
          v_roe = roe (a_metrics analysis);
          v_debt_to_equity = debt_to_equity (a_metrics analysis);
          (score, signals) =
            (if fge v_dividend_yield (Fin 5) then (score + 30, signals @ [''VERY_HIGH_YIELD''])
             else if fge v_dividend_yield (Fin 3) then (score + 25, signals @ [''HIGH_YIELD''])
             else if fge v_dividend_yield (Fin 2)
             then (score + 15, signals @ [''MODERATE_YIELD''])
             else if fgt dps (Fin 0) then (score + 5, signals @ [''PAYS_DIVIDEND''])
             else (score, signals));
          (score, signals) =
            (if fgt v_roe (Fin 10) then (score + 20, signals @ [''SUSTAINABLE_DIVIDEND''])
             else (score, signals));
          score = (if flt v_debt_to_equity (Fin 1) then score + 15
                   else if flt v_debt_to_equity (Fin 2) then score + 10
                   else score);
          score = (if fge (earnings_growth stock) (Fin (- 5)) then score + 10 else score)
      in (min 100 score, signals))"

definition screen_momentum :: scorer where
  "screen_momentum stock analysis =
     (let score = 0; signals = [];
          v_revenue_growth = revenue_growth stock;
          v_earnings_growth = earnings_growth stock;
          v_momentum_score = momentum_score analysis;
          (score, signals) =
            (if fgt v_earnings_growth (Fin 25) then (score + 35, signals @ [''STRONG_MOMENTUM''])
             else if fgt v_earnings_growth (Fin 15)
             then (score + 25, signals @ [''MODERATE_MOMENTUM''])
             else if fgt v_earnings_growth (Fin 5) then (score + 15, signals)
             else (score, signals));
          score = (if fgt v_revenue_growth (Fin 20) then score + 20 else score);
          score = (if v_momentum_score > 70 then score + 15 else score)
      in (min 100 score, signals))"

definition screen_quality :: scorer where
  "screen_quality stock analysis =
     (let score = 0; signals = [];
          v_quality_score = quality_score analysis;
          v_roe = roe (a_metrics analysis);
          v_roa = roa (a_metrics analysis);
          v_debt_to_equity = debt_to_equity (a_metrics analysis);
          v_current_ratio = current_ratio (a_metrics analysis);
          v_net_margin = net_margin (a_metrics analysis);
          (score, signals) =
            (if v_quality_score > 80 then (score + 30, signals @ [''HIGH_QUALITY''])
             else if v_quality_score > 70 then (score + 20, signals @ [''GOOD_QUALITY''])
             else (score, signals));
          (score, signals) =
            (if fgt v_roe (Fin 20) then (score + 20, signals @ [''EXCELLENT_ROE''])
             else if fgt v_roe (Fin 15) then (score + 15, signals)
             else (score, signals));
          score = (if fgt v_roa (Fin 10) then score + 15 else score);
          (score, signals) =
            (if flt v_debt_to_equity (Fin (1 / 2))
             then (score + 20, signals @ [''VERY_LOW_DEBT''])
             else if flt v_debt_to_equity (Fin 1) then (score + 10, signals)
             else (score, signals));
          (score, signals) =
            (if fgt v_current_ratio (Fin 2) then (score + 10, signals @ [''STRONG_LIQUIDITY''])
             else (score, signals));
          score = (if fgt v_net_margin (Fin 15) then score + 10 else score)
      in (min 100 score, signals))"

definition screen_contrarian :: scorer where
  "screen_contrarian stock analysis =
     (let score = 0; signals = [];
          v_pe_ratio = pe_ratio (a_metrics analysis);
          v_pb_ratio = pb_ratio (a_metrics analysis);
          v_valuation_score = valuation_score analysis;
          v_revenue_growth = revenue_growth stock;
          v_roe = roe (a_metrics analysis);
          (score, signals) =
            (if flt v_pe_ratio (Fin 8) then (score + 30, signals @ [''EXTREMELY_UNDERVALUED''])
             else if flt v_pe_ratio (Fin 12)
             then (score + 20, signals @ [''SIGNIFICANTLY_UNDERVALUED''])
             else (score, signals));
          score = (if flt v_pb_ratio (Fin (4 / 5)) then score + 20 else score);
          (score, signals) =
            (if v_valuation_score > 70 then (score + 25, signals @ [''MARKET_UNDERVALUATION''])
             else (score, signals));
          (score, signals) =
            (if fgt v_roe (Fin 10) \<and> fge v_revenue_growth (Fin 0)
             then (score + 20, signals @ [''HIDDEN_VALUE''])
             else (score, signals))
      in (min 100 score, signals))"

text \<open>The table \<open>self.strategies\<close> set up by the constructor, and its \<open>get\<close>.\<close>

definition strategies :: "strategy_arg \<Rightarrow> scorer option" where
  "strategies =
     Map.empty
       (Member VALUE_INVESTING \<mapsto> screen_value,
        Member GROWTH_INVESTING \<mapsto> screen_growth,
        Member DIVIDEND_INVESTING \<mapsto> screen_dividend,
        Member MOMENTUM_INVESTING \<mapsto> screen_momentum,
        Member QUALITY_INVESTING \<mapsto> screen_quality,
        Member CONTRARIAN \<mapsto> screen_contrarian)"

text \<open>
  \<open>sorted(results, key=lambda x: x.score, reverse=True)\<close>: Python's sort is stable, also
  with \<open>reverse=True\<close>, so it is the stable sort on the negated key.
\<close>

definition sorted_by_score_reverse :: "ScreeningResult list \<Rightarrow> ScreeningResult list" where
  "sorted_by_score_reverse results = sort_key (\<lambda>x. - score x) results"

text \<open>The text printed for the strategy in the error message.\<close>

fun strategy_str :: "strategy_arg \<Rightarrow> string" where
  "strategy_str (Member VALUE_INVESTING) = ''ScreeningStrategy.VALUE_INVESTING''"
| "strategy_str (Member GROWTH_INVESTING) = ''ScreeningStrategy.GROWTH_INVESTING''"
| "strategy_str (Member DIVIDEND_INVESTING) = ''ScreeningStrategy.DIVIDEND_INVESTING''"
| "strategy_str (Member MOMENTUM_INVESTING) = ''ScreeningStrategy.MOMENTUM_INVESTING''"
| "strategy_str (Member QUALITY_INVESTING) = ''ScreeningStrategy.QUALITY_INVESTING''"
| "strategy_str (Member CONTRARIAN) = ''ScreeningStrategy.CONTRARIAN''"
| "strategy_str (Other s) = s"

text \<open>The \<open>for stock in stocks\<close> loop of \<open>screen\<close>, with \<open>results\<close> as accumulator.\<close>

fun screen_loop ::
  "scorer \<Rightarrow> strategy_arg \<Rightarrow> pyfloat \<Rightarrow> StockData list \<Rightarrow> ScreeningResult list
     \<Rightarrow> py_error + ScreeningResult list" where
  "screen_loop screening_func strat threshold [] results = Inr results"
| "screen_loop screening_func strat threshold (stock # rest) results =
     (case analyze stock of
        Inl e \<Rightarrow> Inl e
      | Inr analysis \<Rightarrow>
          (case screening_func stock analysis of
             (v_score, signals) \<Rightarrow>
               if fge (Fin (of_int v_score)) threshold
               then screen_loop screening_func strat threshold rest
                      (results @ [\<lparr> r_symbol = symbol stock,
                                     score = of_int v_score,
                                     strategy = strat,
                                     r_metrics = a_metrics analysis,
                                     r_signals = signals \<rparr>])
               else screen_loop screening_func strat threshold rest results))"

definition screen ::
  "StockData list \<Rightarrow> strategy_arg \<Rightarrow> pyfloat \<Rightarrow> py_error + ScreeningResult list" where
  "screen stocks strat threshold =
     (case strategies strat of
        None \<Rightarrow> Inl (ValueError (''Unknown strategy: '' @ strategy_str strat))
      | Some screening_func \<Rightarrow>
          (case screen_loop screening_func strat threshold stocks [] of
             Inl e \<Rightarrow> Inl e
           | Inr results \<Rightarrow> Inr (sorted_by_score_reverse results)))"

section \<open>StrategyBuilder\<close>

text \<open>
  A rule is a Python callable applied to the stock and its analysis. It either returns a
  truth value or raises an exception (an instance of \<open>Exception\<close>, which is what the
  handler in the loop catches), described by the text the exception prints as.
\<close>

datatype rule_outcome = Returns bool | Raises string

type_synonym rule = "StockData \<Rightarrow> Analysis \<Rightarrow> rule_outcome"

text \<open>
  An entry of the registry; its \<open>created_at\<close> clock reading is left out. The registry
  \<open>self.custom_strategies\<close> is a dictionary in insertion order.
\<close>

record CustomStrategy =
  cs_name :: string
  rules :: "rule list"

type_synonym StrategyBuilder = "(string \<times> CustomStrategy) list"

text \<open>Dictionary assignment \<open>d[k] = v\<close>: an existing key keeps its place.\<close>

fun dict_set :: "'k \<Rightarrow> 'v \<Rightarrow> ('k \<times> 'v) list \<Rightarrow> ('k \<times> 'v) list" where
  "dict_set k v [] = [(k, v)]"
| "dict_set k v ((k', v') # d) = (if k = k' then (k, v) # d else (k', v') # dict_set k v d)"

text \<open>Decimal text of a natural number, as an f-string prints it.\<close>

definition digit_char :: "nat \<Rightarrow> char" where
  "digit_char d = ''0123456789'' ! d"

fun str_nat :: "nat \<Rightarrow> string" where
  "str_nat n = (if n < 10 then [digit_char n] else str_nat (n div 10) @ [digit_char (n mod 10)])"

declare str_nat.simps [simp del]

definition create_strategy ::
  "StrategyBuilder \<Rightarrow> string \<Rightarrow> rule list \<Rightarrow> string \<times> StrategyBuilder" where
  "create_strategy custom_strategies name rs =
     (let strategy_id = ''custom_'' @ name @ ''_'' @ str_nat (length custom_strategies)
      in (strategy_id, dict_set strategy_id \<lparr> cs_name = name, rules = rs \<rparr> custom_strategies))"

text \<open>
  The inner loop \<open>for i, rule in enumerate(strategy['rules'])\<close>. Its state is the match
  count, the matching signals and the lines printed so far.
\<close>

fun eval_rules ::
  "rule list \<Rightarrow> nat \<Rightarrow> StockData \<Rightarrow> Analysis \<Rightarrow> nat \<times> string list \<times> string list
     \<Rightarrow> nat \<times> string list \<times> string list" where
  "eval_rules [] i stock analysis st = st"
| "eval_rules (r # rest) i stock analysis (match_count, matching_signals, out) =
     (case r stock analysis of
        Returns True \<Rightarrow>
          eval_rules rest (i + 1) stock analysis
            (match_count + 1, matching_signals @ [''RULE_'' @ str_nat i], out)
      | Returns False \<Rightarrow>
          eval_rules rest (i + 1) stock analysis (match_count, matching_signals, out)
      | Raises e \<Rightarrow>
          eval_rules rest (i + 1) stock analysis
            (match_count, matching_signals,
             out @ [''Error evaluating rule '' @ str_nat i @ '': '' @ e]))"

text \<open>
  Rounding to the nearest IEEE 754 double (53 significant bits, ties to even, gradual
  underflow below \<open>2^-1022\<close>), which is how CPython rounds a float product and the true
  division of two integers. \<open>binary_exponent a\<close> is the integer \<open>e\<close> with
  \<open>2^e \<le> a < 2^(e+1)\<close> for a positive \<open>a\<close>. Overflow to infinity is not part of the
  function: the values rounded in this theory lie between 0 and 100.
\<close>

fun log2_floor :: "nat \<Rightarrow> nat" where
  "log2_floor n = (if n < 2 then 0 else Suc (log2_floor (n div 2)))"

declare log2_floor.simps [simp del]

definition pow2 :: "int \<Rightarrow> rat" where
  "pow2 k = (if 0 \<le> k then 2 ^ nat k else 1 / 2 ^ nat (- k))"

definition binary_exponent :: "rat \<Rightarrow> int" where
  "binary_exponent a =
     (if 1 \<le> a then int (log2_floor (nat \<lfloor>a\<rfloor>))
      else - int (Suc (log2_floor (nat (\<lceil>1 / a\<rceil> - 1)))))"

definition round_half_even :: "rat \<Rightarrow> int" where
  "round_half_even y =
     (let f = \<lfloor>y\<rfloor>; d = y - of_int f
      in if d < 1 / 2 then f
         else if 1 / 2 < d then f + 1
         else if even f then f else f + 1)"

definition round_double :: "rat \<Rightarrow> rat" where
  "round_double x =
     (if x = 0 then 0
      else let a = \<bar>x\<bar>;
               e = max (binary_exponent a) (- 1022);
               ulp = pow2 (e - 52)
           in sgn x * of_int (round_half_even (a / ulp)) * ulp)"

text \<open>
  True division \<open>a / b\<close> of two Python integers that are natural numbers: the quotient
  correctly rounded to a double.
\<close>

definition py_truediv :: "nat \<Rightarrow> nat \<Rightarrow> py_error + rat" where
  "py_truediv a b =
     (if b = 0 then Inl ZeroDivisionError else Inr (round_double (of_nat a / of_nat b)))"

text \<open>The outer loop over the stocks; \<open>out\<close> collects the printed lines.\<close>

fun custom_loop ::
  "rule list \<Rightarrow> pyfloat \<Rightarrow> StockData list \<Rightarrow> ScreeningResult list \<times> string list
     \<Rightarrow> py_error + ScreeningResult list \<times> string list" where
  "custom_loop rs threshold [] st = Inr st"
| "custom_loop rs threshold (stock # rest) (results, out) =
     (case analyze stock of
        Inl e \<Rightarrow> Inl e
      | Inr analysis \<Rightarrow>
          (case eval_rules rs 0 stock analysis (0, [], out) of
             (match_count, matching_signals, out') \<Rightarrow>
               (case py_truediv match_count (length rs) of
                  Inl e \<Rightarrow> Inl e
                | Inr q \<Rightarrow>
                    (let v_score = round_double (q * 100)
                     in if fge (Fin v_score) threshold
                        then custom_loop rs threshold rest
                               (results @ [\<lparr> r_symbol = symbol stock,
                                              score = v_score,
                                              strategy = Member VALUE_INVESTING,
                                              r_metrics = a_metrics analysis,
                                              r_signals = matching_signals \<rparr>], out')
                        else custom_loop rs threshold rest (results, out')))))"

definition screen_with_custom_strategy ::
  "StrategyBuilder \<Rightarrow> StockData list \<Rightarrow> string \<Rightarrow> pyfloat
     \<Rightarrow> py_error + ScreeningResult list \<times> string list" where
  "screen_with_custom_strategy custom_strategies stocks strategy_id threshold =
     (case map_of custom_strategies strategy_id of
        None \<Rightarrow> Inl (ValueError (''Unknown strategy ID: '' @ strategy_id))
      | Some strat \<Rightarrow>
          (case custom_loop (rules strat) threshold stocks ([], []) of
             Inl e \<Rightarrow> Inl e
           | Inr (results, out) \<Rightarrow> Inr (sorted_by_score_reverse results, out)))"

section \<open>StockScreener criteria filter (data provider module)\<close>

text \<open>
  A value read from the metrics dictionary or from an attribute of the stock object: a
  number, the symbol string, \<open>None\<close> (an optional ratio that was not supplied), or some
  other object.
\<close>

datatype pyval = Num pyfloat | Str string | PyNone | PyObject

record Bounds =
  b_min :: "pyfloat option"
  b_max :: "pyfloat option"

text \<open>\<open>k in metrics\<close> and \<open>metrics[k]\<close> for the dictionary of 25 keys.\<close>

definition metrics_get :: "Metrics \<Rightarrow> string \<Rightarrow> pyfloat option" where
  "metrics_get m =
     map_of
       [(''pe_ratio'', pe_ratio m), (''pb_ratio'', pb_ratio m), (''peg_ratio'', peg_ratio m),
        (''price_to_sales'', price_to_sales m), (''roe'', roe m), (''roa'', roa m),
        (''net_margin'', net_margin m), (''gross_margin'', gross_margin m),
        (''operating_margin'', operating_margin m), (''roic'', roic m),
        (''asset_turnover'', asset_turnover m), (''equity_multiplier'', equity_multiplier m),
        (''current_ratio'', current_ratio m), (''quick_ratio'', quick_ratio m),
        (''cash_ratio'', cash_ratio m), (''debt_to_equity'', debt_to_equity m),
        (''debt_to_assets'', debt_to_assets m), (''equity_ratio'', equity_ratio m),
        (''interest_coverage'', interest_coverage m),
        (''revenue_growth'', m_revenue_growth m), (''earnings_growth'', m_earnings_growth m),
        (''dividend_yield'', m_dividend_yield m), (''eps'', m_eps m),
        (''book_value_per_share'', m_book_value_per_share m),
        (''dividend_per_share'', m_dividend_per_share m)]"

definition opt_val :: "pyfloat option \<Rightarrow> pyval" where
  "opt_val v = (case v of None \<Rightarrow> PyNone | Some x \<Rightarrow> Num x)"

text \<open>The fields of the dataclass, by name.\<close>

definition stock_fields :: "StockData \<Rightarrow> (string \<times> pyval) list" where
  "stock_fields s =
     [(''symbol'', Str (symbol s)), (''price'', Num (price s)), (''eps'', Num (eps s)),
      (''revenue'', Num (revenue s)), (''net_income'', Num (net_income s)),
      (''total_assets'', Num (total_assets s)),
      (''total_liabilities'', Num (total_liabilities s)),
      (''cash'', Num (cash s)), (''debt'', Num (debt s)),
      (''shares_outstanding'', Num (Fin (of_int (shares_outstanding s)))),
      (''market_cap'', Num (market_cap s)),
      (''dividend_per_share'', Num (dividend_per_share s)),
      (''book_value_per_share'', Num (book_value_per_share s)),
      (''revenue_growth'', Num (revenue_growth s)),
      (''earnings_growth'', Num (earnings_growth s)),
      (''dividend_yield'', Num (dividend_yield s)),
      (''pe_ratio'', opt_val (sd_pe_ratio s)), (''pb_ratio'', opt_val (sd_pb_ratio s)),
      (''peg_ratio'', opt_val (sd_peg_ratio s)), (''roe'', opt_val (sd_roe s)),
      (''roa'', opt_val (sd_roa s)), (''debt_to_equity'', opt_val (sd_debt_to_equity s)),
      (''current_ratio'', opt_val (sd_current_ratio s)),
      (''quick_ratio'', opt_val (sd_quick_ratio s)),
      (''debt_to_assets'', opt_val (sd_debt_to_assets s)),
      (''interest_coverage'', opt_val (sd_interest_coverage s))]"

text \<open>
  \<open>hasattr(stock, name)\<close> and \<open>getattr(stock, name)\<close>. Besides its 26 fields a
  \<open>StockData\<close> instance has every other attribute that Python finds on the object: those
  inherited from \<open>object\<close> (\<open>__class__\<close>, \<open>__doc__\<close>, \<open>__init__\<close>, ...) and those the
  \<open>@dataclass\<close> decorator sets on the class (\<open>__dataclass_fields__\<close>,
  \<open>__dataclass_params__\<close>, \<open>__match_args__\<close>, \<open>__eq__\<close>, \<open>__hash__\<close>, ...). The full
  list of these names belongs to the interpreter version, not to this program, and is
  the parameter \<open>other_attrs\<close>: all names other than the 26 fields for which \<open>hasattr\<close>
  is true. None of these attributes is a number (they are types, strings, dictionaries,
  tuples, methods or \<open>None\<close>), so comparing one with a bound raises TypeError.
\<close>

definition stock_getattr :: "string list \<Rightarrow> StockData \<Rightarrow> string \<Rightarrow> pyval option" where
  "stock_getattr other_attrs stock name =
     (case map_of (stock_fields stock) name of
        Some v \<Rightarrow> Some v
      | None \<Rightarrow> if name \<in> set other_attrs then Some PyObject else None)"

text \<open>\<open>value < bound\<close> and \<open>value > bound\<close>; only numbers can be compared with a number.\<close>

fun py_lt :: "pyval \<Rightarrow> pyfloat \<Rightarrow> py_error + bool" where
  "py_lt (Num v) b = Inr (flt v b)"
| "py_lt _ b = Inl TypeError"

fun py_gt :: "pyval \<Rightarrow> pyfloat \<Rightarrow> py_error + bool" where
  "py_gt (Num v) b = Inr (fgt v b)"
| "py_gt _ b = Inl TypeError"

definition metric_map :: "(string \<times> string) list" where
  "metric_map =
     [(''pe_ratio'', ''pe_ratio''), (''pb_ratio'', ''pb_ratio''), (''roe'', ''roe''),
      (''roa'', ''roa''), (''debt_to_equity'', ''debt_to_equity''),
      (''current_ratio'', ''current_ratio''), (''dividend_yield'', ''dividend_yield''),
      (''revenue_growth'', ''revenue_growth''), (''earnings_growth'', ''earnings_growth''),
      (''payout_ratio'', ''payout_ratio''), (''interest_coverage'', ''interest_coverage''),
      (''debt_to_assets'', ''debt_to_assets''), (''free_cash_flow'', ''free_cash_flow''),
      (''years_of_dividends'', ''years_of_dividends'')]"

text \<open>
  The value a criterion is checked against: the metrics dictionary first, then the
  attributes of the stock; \<open>None\<close> when neither has the name.
\<close>

definition criterion_value ::
  "string list \<Rightarrow> StockData \<Rightarrow> Metrics \<Rightarrow> string \<Rightarrow> pyval option" where
  "criterion_value other_attrs stock metrics actual_metric =
     (case metrics_get metrics actual_metric of
        Some v \<Rightarrow> Some (Num v)
      | None \<Rightarrow> stock_getattr other_attrs stock actual_metric)"

text \<open>
  The loop \<open>for metric, bounds in criteria.items()\<close> for one stock; the result is the
  final value of \<open>passes\<close>. The criteria dictionary is its list of items.
\<close>

fun check_criteria ::
  "string list \<Rightarrow> StockData \<Rightarrow> Metrics \<Rightarrow> (string \<times> Bounds) list \<Rightarrow> py_error + bool" where
  "check_criteria other_attrs stock metrics [] = Inr True"
| "check_criteria other_attrs stock metrics ((metric, bounds) # rest) =
     (let actual_metric = (case map_of metric_map metric of Some a \<Rightarrow> a | None \<Rightarrow> metric)
      in case criterion_value other_attrs stock metrics actual_metric of
           None \<Rightarrow> check_criteria other_attrs stock metrics rest
         | Some v \<Rightarrow>
             (case (case b_min bounds of None \<Rightarrow> Inr False | Some lo \<Rightarrow> py_lt v lo) of
                Inl e \<Rightarrow> Inl e
              | Inr True \<Rightarrow> Inr False
              | Inr False \<Rightarrow>
                  (case (case b_max bounds of None \<Rightarrow> Inr False | Some hi \<Rightarrow> py_gt v hi) of
                     Inl e \<Rightarrow> Inl e
                   | Inr True \<Rightarrow> Inr False
                   | Inr False \<Rightarrow> check_criteria other_attrs stock metrics rest)))"

fun apply_criteria_loop ::
  "string list \<Rightarrow> (string \<times> Bounds) list \<Rightarrow> StockData list \<Rightarrow> StockData list
     \<Rightarrow> py_error + StockData list" where
  "apply_criteria_loop other_attrs criteria [] filtered = Inr filtered"
| "apply_criteria_loop other_attrs criteria (stock # rest) filtered =
     (case analyze stock of
        Inl e \<Rightarrow> Inl e
      | Inr analysis \<Rightarrow>
          (case check_criteria other_attrs stock (a_metrics analysis) criteria of
             Inl e \<Rightarrow> Inl e
           | Inr passes \<Rightarrow>
               apply_criteria_loop other_attrs criteria rest
                 (if passes then filtered @ [stock] else filtered)))"

definition apply_criteria ::
  "string list \<Rightarrow> StockData list \<Rightarrow> (string \<times> Bounds) list \<Rightarrow> py_error + StockData list" where
  "apply_criteria other_attrs stocks criteria =
     apply_criteria_loop other_attrs criteria stocks []"

section \<open>Notions used to state the properties\<close>

text \<open>
  The analysis of a stock as a value. \<open>analyze\<close> returns for every stock (lemma
  \<open>analyze_returns\<close> below), so the projection is only ever applied to a returned value.
\<close>

definition analysis_of :: "StockData \<Rightarrow> Analysis" where
  "analysis_of stock = projr (analyze stock)"

text \<open>
  The score of a custom strategy in the words of the specification: the count of rules
  returning true, divided by the total rule count, times 100, the quotient and the
  product each being a float operation.
\<close>

definition spec_custom_score :: "rule list \<Rightarrow> StockData \<Rightarrow> rat" where
  "spec_custom_score rs stock =
     round_double
       (round_double
          (of_nat (length (filter (\<lambda>r. r stock (analysis_of stock) = Returns True) rs))
             / of_nat (length rs))
        * 100)"

text \<open>
  The criteria filter in the words of the specification: a named metric is resolved
  first against the computed metrics, else against the record field of the same name,
  else the criterion is skipped; a resolved value passes when it is not below the
  minimum and not above the maximum, each bound checked only if present.
\<close>

definition spec_metric_value :: "StockData \<Rightarrow> Metrics \<Rightarrow> string \<Rightarrow> pyval option" where
  "spec_metric_value stock metrics name =
     (case metrics_get metrics name of
        Some v \<Rightarrow> Some (Num v)
      | None \<Rightarrow> map_of (stock_fields stock) name)"

definition spec_criterion_passes :: "StockData \<Rightarrow> string \<times> Bounds \<Rightarrow> bool" where
  "spec_criterion_passes stock c =
     (case spec_metric_value stock (a_metrics (analysis_of stock)) (fst c) of
        Some (Num v) \<Rightarrow>
          (case b_min (snd c) of None \<Rightarrow> True | Some lo \<Rightarrow> \<not> flt v lo)
          \<and> (case b_max (snd c) of None \<Rightarrow> True | Some hi \<Rightarrow> \<not> fgt v hi)
      | _ \<Rightarrow> True)"

text \<open>
  The order of the five strength labels, lowest first, to compare two ratings.
\<close>

definition strength_level :: "string \<Rightarrow> nat" where
  "strength_level label =
     (if label = ''VERY_STRONG'' then 4
      else if label = ''STRONG'' then 3
      else if label = ''MODERATE'' then 2
      else if label = ''WEAK'' then 1
      else 0)"

text \<open>
  Everything the analyzer derives from a metrics dictionary, and everything the six
  strategy scorers return, to state that a metric is not read at all. The analysis
  with its metrics dictionary replaced is \<open>with_metrics\<close>.
\<close>

definition analyzer_outputs ::
  "StockData \<Rightarrow> Metrics \<Rightarrow> string list \<times> int \<times> string \<times> int \<times> int \<times> int" where
  "analyzer_outputs stock metrics =
     (generate_signals stock metrics,
      calculate_risk_score stock metrics,
      assess_fundamental_strength stock metrics,
      calculate_valuation_score metrics,
      calculate_quality_score metrics,
      calculate_growth_score stock metrics)"

definition with_metrics :: "Analysis \<Rightarrow> Metrics \<Rightarrow> Analysis" where
  "with_metrics analysis metrics = analysis \<lparr> a_metrics := metrics \<rparr>"

definition scorer_outputs :: "StockData \<Rightarrow> Analysis \<Rightarrow> (int \<times> string list) list" where
  "scorer_outputs stock analysis =
     [screen_value stock analysis, screen_growth stock analysis,
      screen_dividend stock analysis, screen_momentum stock analysis,
      screen_quality stock analysis, screen_contrarian stock analysis]"

section \<open>Example inputs\<close>

text \<open>
  The attributes other than the fields that CPython 3.11 finds on an instance of a
  dataclass, as an example value of \<open>other_attrs\<close>.
\<close>

definition cpython_attrs :: "string list" where
  "cpython_attrs =
     [''__annotations__'', ''__class__'', ''__dataclass_fields__'', ''__dataclass_params__'',
      ''__delattr__'', ''__dict__'', ''__dir__'', ''__doc__'', ''__eq__'', ''__format__'',
      ''__ge__'', ''__getattribute__'', ''__getstate__'', ''__gt__'', ''__hash__'',
      ''__init__'', ''__init_subclass__'', ''__le__'', ''__lt__'', ''__match_args__'',
      ''__module__'', ''__ne__'', ''__new__'', ''__reduce__'', ''__reduce_ex__'',
      ''__repr__'', ''__setattr__'', ''__sizeof__'', ''__str__'', ''__subclasshook__'',
      ''__weakref__'']"

definition stock0 :: StockData where
  "stock0 = \<lparr> symbol = ''ACME'', price = Fin 50, eps = Fin 0, revenue = Fin 1000,
      net_income = Fin 120, total_assets = Fin 2000, total_liabilities = Fin 1000,
      cash = Fin 300, debt = Fin 0, shares_outstanding = 100, market_cap = Fin 5000,
      dividend_per_share = Fin 1, book_value_per_share = Fin 40,
      revenue_growth = Fin 12, earnings_growth = Fin 8, dividend_yield = Fin 2,
      sd_pe_ratio = None, sd_pb_ratio = None, sd_peg_ratio = None, sd_roe = None,
      sd_roa = None, sd_debt_to_equity = None, sd_current_ratio = None,
      sd_quick_ratio = None, sd_debt_to_assets = None, sd_interest_coverage = None \<rparr>"

definition stock1 :: StockData where
  "stock1 = \<lparr> symbol = ''BRGN'', price = Fin 8, eps = Fin 1, revenue = Fin 1000,
      net_income = Fin 200, total_assets = Fin 2000, total_liabilities = Fin 1000,
      cash = Fin 2500, debt = Fin 100, shares_outstanding = 50, market_cap = Fin 500,
      dividend_per_share = Fin 0, book_value_per_share = Fin 10,
      revenue_growth = Fin 3, earnings_growth = Fin 5, dividend_yield = Fin 0,
      sd_pe_ratio = None, sd_pb_ratio = None, sd_peg_ratio = None, sd_roe = None,
      sd_roa = None, sd_debt_to_equity = None, sd_current_ratio = None,
      sd_quick_ratio = None, sd_debt_to_assets = None, sd_interest_coverage = None \<rparr>"

definition rules3 :: "rule list" where
  "rules3 = [\<lambda>stock analysis. Returns True,
             \<lambda>stock analysis. Raises ''boom'',
             \<lambda>stock analysis. Returns (flt (pe_ratio (a_metrics analysis)) (Fin 10))]"

definition stock2 :: StockData where
  "stock2 = stock0 \<lparr> symbol := ''NOLI'', total_liabilities := Fin 0 \<rparr>"

definition stock_pe15 :: StockData where
  "stock_pe15 = stock0 \<lparr> symbol := ''PE15'', price := Fin 150, eps := Fin 10 \<rparr>"

definition stock_pe25 :: StockData where
  "stock_pe25 = stock0 \<lparr> symbol := ''PE25'', price := Fin 250, eps := Fin 10 \<rparr>"

section \<open>Totality of the metrics calculator and the analyzer\<close>

lemma fle_zero_nonzero: "\<not> fle b (Fin 0) \<Longrightarrow> b \<noteq> Fin 0"
  by auto

lemma fgt_zero_nonzero: "fgt b (Fin 0) \<Longrightarrow> b \<noteq> Fin 0"
  by (auto simp: fgt_def)

lemma py_div_returns: "b \<noteq> Fin 0 \<Longrightarrow> \<exists>v. py_div a b = Inr v"
  by (cases a; cases b) auto

lemma then_py_Inr [simp]: "then_py (Inr v) f = f v"
  by (simp add: then_py_def)

lemma then_py_Inl [simp]: "then_py (Inl e) f = Inl e"
  by (simp add: then_py_def)

lemma guarded_div_returns: "\<not> fle b (Fin 0) \<Longrightarrow> \<exists>v. py_div a b = Inr v"
  using py_div_returns fle_zero_nonzero by blast

lemma guarded_div_mul_returns:
  "\<not> fle b (Fin 0) \<Longrightarrow> \<exists>v. then_py (py_div a b) (\<lambda>q. Inr (fmul q c)) = Inr v"
  using guarded_div_returns [of b a] by auto

lemma calculate_pe_ratio_returns: "\<exists>v. calculate_pe_ratio s = Inr v"
  by (simp add: calculate_pe_ratio_def guarded_div_returns)

lemma calculate_pb_ratio_returns: "\<exists>v. calculate_pb_ratio s = Inr v"
  by (simp add: calculate_pb_ratio_def guarded_div_returns)

lemma calculate_peg_ratio_returns: "\<exists>v. calculate_peg_ratio s = Inr v"
proof -
  have "\<exists>pe. (if fgt (eps s) (Fin 0) then py_div (price s) (eps s) else Inr PInf) = Inr pe"
    using py_div_returns [OF fgt_zero_nonzero, of "eps s" "price s"] by simp
  then obtain pe
    where pe: "(if fgt (eps s) (Fin 0) then py_div (price s) (eps s) else Inr PInf) = Inr pe"
    by blast
  show ?thesis
    unfolding calculate_peg_ratio_def pe by (simp add: guarded_div_returns)
qed

lemma calculate_price_to_sales_returns: "\<exists>v. calculate_price_to_sales s = Inr v"
  by (simp add: calculate_price_to_sales_def guarded_div_returns)

lemma calculate_roe_returns: "\<exists>v. calculate_roe s = Inr v"
  by (simp add: calculate_roe_def Let_def guarded_div_mul_returns)

lemma calculate_roa_returns: "\<exists>v. calculate_roa s = Inr v"
  by (simp add: calculate_roa_def guarded_div_mul_returns)

lemma calculate_net_margin_returns: "\<exists>v. calculate_net_margin s = Inr v"
  by (simp add: calculate_net_margin_def guarded_div_mul_returns)

lemma calculate_gross_margin_returns: "\<exists>v. calculate_gross_margin s = Inr v"
  by (simp add: calculate_gross_margin_def guarded_div_mul_returns)

lemma calculate_operating_margin_returns: "\<exists>v. calculate_operating_margin s = Inr v"
  by (simp add: calculate_operating_margin_def guarded_div_mul_returns)

lemma calculate_roic_returns: "\<exists>v. calculate_roic s = Inr v"
  by (simp add: calculate_roic_def Let_def guarded_div_mul_returns)

lemma calculate_asset_turnover_returns: "\<exists>v. calculate_asset_turnover s = Inr v"
  by (simp add: calculate_asset_turnover_def guarded_div_returns)

lemma calculate_equity_multiplier_returns: "\<exists>v. calculate_equity_multiplier s = Inr v"
  by (simp add: calculate_equity_multiplier_def Let_def guarded_div_returns)

lemma calculate_current_ratio_returns: "\<exists>v. calculate_current_ratio s = Inr v"
  by (simp add: calculate_current_ratio_def guarded_div_returns)

lemma calculate_quick_ratio_returns: "\<exists>v. calculate_quick_ratio s = Inr v"
  by (simp add: calculate_quick_ratio_def guarded_div_returns)

lemma calculate_cash_ratio_returns: "\<exists>v. calculate_cash_ratio s = Inr v"
  by (simp add: calculate_cash_ratio_def guarded_div_returns)

lemma calculate_debt_to_equity_returns: "\<exists>v. calculate_debt_to_equity s = Inr v"
  by (simp add: calculate_debt_to_equity_def Let_def guarded_div_returns)

lemma calculate_debt_to_assets_returns: "\<exists>v. calculate_debt_to_assets s = Inr v"
  by (simp add: calculate_debt_to_assets_def guarded_div_returns)

lemma calculate_equity_ratio_returns: "\<exists>v. calculate_equity_ratio s = Inr v"
  by (simp add: calculate_equity_ratio_def Let_def guarded_div_mul_returns)

lemma calculate_interest_coverage_returns: "\<exists>v. calculate_interest_coverage s = Inr v"
  by (simp add: calculate_interest_coverage_def Let_def guarded_div_returns)

lemma calculate_all_metrics_returns: "\<exists>m. calculate_all_metrics s = Inr m"
proof -
  obtain v1 where v1: "calculate_pe_ratio s = Inr v1"
    using calculate_pe_ratio_returns by blast
  obtain v2 where v2: "calculate_pb_ratio s = Inr v2"
    using calculate_pb_ratio_returns by blast
  obtain v3 where v3: "calculate_peg_ratio s = Inr v3"
    using calculate_peg_ratio_returns by blast
  obtain v4 where v4: "calculate_price_to_sales s = Inr v4"
    using calculate_price_to_sales_returns by blast
  obtain v5 where v5: "calculate_roe s = Inr v5"
    using calculate_roe_returns by blast
  obtain v6 where v6: "calculate_roa s = Inr v6"
    using calculate_roa_returns by blast
  obtain v7 where v7: "calculate_net_margin s = Inr v7"
    using calculate_net_margin_returns by blast
  obtain v8 where v8: "calculate_gross_margin s = Inr v8"
    using calculate_gross_margin_returns by blast
  obtain v9 where v9: "calculate_operating_margin s = Inr v9"
    using calculate_operating_margin_returns by blast
  obtain v10 where v10: "calculate_roic s = Inr v10"
    using calculate_roic_returns by blast
  obtain v11 where v11: "calculate_asset_turnover s = Inr v11"
    using calculate_asset_turnover_returns by blast
  obtain v12 where v12: "calculate_equity_multiplier s = Inr v12"
    using calculate_equity_multiplier_returns by blast
  obtain v13 where v13: "calculate_current_ratio s = Inr v13"
    using calculate_current_ratio_returns by blast
  obtain v14 where v14: "calculate_quick_ratio s = Inr v14"
    using calculate_quick_ratio_returns by blast
  obtain v15 where v15: "calculate_cash_ratio s = Inr v15"
    using calculate_cash_ratio_returns by blast
  obtain v16 where v16: "calculate_debt_to_equity s = Inr v16"
    using calculate_debt_to_equity_returns by blast
  obtain v17 where v17: "calculate_debt_to_assets s = Inr v17"
    using calculate_debt_to_assets_returns by blast
  obtain v18 where v18: "calculate_equity_ratio s = Inr v18"
    using calculate_equity_ratio_returns by blast
  obtain v19 where v19: "calculate_interest_coverage s = Inr v19"
    using calculate_interest_coverage_returns by blast
  show ?thesis
    unfolding calculate_all_metrics_def v1 v2 v3 v4 v5 v6 v7 v8 v9 v10 v11 v12 v13 v14 v15 v16 v17 v18 v19 then_py_Inr
    by (rule exI, rule refl)
qed

lemma clamp_bounds: "0 \<le> min 100 (max 0 (x::int)) \<and> min 100 (max 0 x) \<le> 100"
  by simp

lemma analyze_returns: "\<exists>a. analyze s = Inr a"
  using calculate_all_metrics_returns [of s] by (auto simp: analyze_def)

text \<open>
  Claim C1. For every stock record, \<open>analyze\<close> returns (it raises nothing), and in the
  analysis it returns the risk score and the valuation, quality, growth and momentum
  scores each lie between 0 and 100. The record is arbitrary: its fields may be
  infinite or NaN, and so may the metrics computed from them.
\<close>

theorem analyze_scores_in_range:
  "\<exists>a. analyze s = Inr a
       \<and> 0 \<le> risk_score a \<and> risk_score a \<le> 100
       \<and> 0 \<le> valuation_score a \<and> valuation_score a \<le> 100
       \<and> 0 \<le> quality_score a \<and> quality_score a \<le> 100
       \<and> 0 \<le> growth_score a \<and> growth_score a \<le> 100
       \<and> 0 \<le> momentum_score a \<and> momentum_score a \<le> 100"
proof -
  obtain m where m: "calculate_all_metrics s = Inr m"
    using calculate_all_metrics_returns by blast
  have "0 \<le> calculate_risk_score s m \<and> calculate_risk_score s m \<le> 100"
    unfolding calculate_risk_score_def Let_def by (rule clamp_bounds)
  moreover have "0 \<le> calculate_valuation_score m \<and> calculate_valuation_score m \<le> 100"
    unfolding calculate_valuation_score_def Let_def by (rule clamp_bounds)
  moreover have "0 \<le> calculate_quality_score m \<and> calculate_quality_score m \<le> 100"
    unfolding calculate_quality_score_def Let_def by (rule clamp_bounds)
  moreover have "0 \<le> calculate_growth_score s m \<and> calculate_growth_score s m \<le> 100"
    unfolding calculate_growth_score_def Let_def by (rule clamp_bounds)
  moreover have "0 \<le> calculate_momentum_score s \<and> calculate_momentum_score s \<le> 100"
    unfolding calculate_momentum_score_def Let_def by (rule clamp_bounds)
  ultimately show ?thesis
    unfolding analyze_def m by simp
qed

section \<open>Infinite sentinels of the metrics\<close>

lemma calculate_all_metrics_fields:
  assumes "calculate_all_metrics s = Inr m"
  shows "calculate_pe_ratio s = Inr (pe_ratio m)"
    and "calculate_pb_ratio s = Inr (pb_ratio m)"
    and "calculate_peg_ratio s = Inr (peg_ratio m)"
    and "calculate_price_to_sales s = Inr (price_to_sales m)"
    and "calculate_current_ratio s = Inr (current_ratio m)"
    and "calculate_debt_to_equity s = Inr (debt_to_equity m)"
    and "calculate_interest_coverage s = Inr (interest_coverage m)"
proof -
  obtain v1 where v1: "calculate_pe_ratio s = Inr v1"
    using calculate_pe_ratio_returns by blast
  obtain v2 where v2: "calculate_pb_ratio s = Inr v2"
    using calculate_pb_ratio_returns by blast
  obtain v3 where v3: "calculate_peg_ratio s = Inr v3"
    using calculate_peg_ratio_returns by blast
  obtain v4 where v4: "calculate_price_to_sales s = Inr v4"
    using calculate_price_to_sales_returns by blast
  obtain v5 where v5: "calculate_roe s = Inr v5"
    using calculate_roe_returns by blast
  obtain v6 where v6: "calculate_roa s = Inr v6"
    using calculate_roa_returns by blast
  obtain v7 where v7: "calculate_net_margin s = Inr v7"
    using calculate_net_margin_returns by blast
  obtain v8 where v8: "calculate_gross_margin s = Inr v8"
    using calculate_gross_margin_returns by blast
  obtain v9 where v9: "calculate_operating_margin s = Inr v9"
    using calculate_operating_margin_returns by blast
  obtain v10 where v10: "calculate_roic s = Inr v10"
    using calculate_roic_returns by blast
  obtain v11 where v11: "calculate_asset_turnover s = Inr v11"
    using calculate_asset_turnover_returns by blast
  obtain v12 where v12: "calculate_equity_multiplier s = Inr v12"
    using calculate_equity_multiplier_returns by blast
  obtain v13 where v13: "calculate_current_ratio s = Inr v13"
    using calculate_current_ratio_returns by blast
  obtain v14 where v14: "calculate_quick_ratio s = Inr v14"
    using calculate_quick_ratio_returns by blast
  obtain v15 where v15: "calculate_cash_ratio s = Inr v15"
    using calculate_cash_ratio_returns by blast
  obtain v16 where v16: "calculate_debt_to_equity s = Inr v16"
    using calculate_debt_to_equity_returns by blast
  obtain v17 where v17: "calculate_debt_to_assets s = Inr v17"
    using calculate_debt_to_assets_returns by blast
  obtain v18 where v18: "calculate_equity_ratio s = Inr v18"
    using calculate_equity_ratio_returns by blast
  obtain v19 where v19: "calculate_interest_coverage s = Inr v19"
    using calculate_interest_coverage_returns by blast
  have m: "m = \<lparr> pe_ratio = v1, pb_ratio = v2, peg_ratio = v3, price_to_sales = v4,
             roe = v5, roa = v6, net_margin = v7, gross_margin = v8,
             operating_margin = v9, roic = v10,
             asset_turnover = v11, equity_multiplier = v12,
             current_ratio = v13, quick_ratio = v14, cash_ratio = v15,
             debt_to_equity = v16, debt_to_assets = v17, equity_ratio = v18,
             interest_coverage = v19,
             m_revenue_growth = revenue_growth s,
             m_earnings_growth = earnings_growth s,
             m_dividend_yield = dividend_yield s,
             m_eps = eps s,
             m_book_value_per_share = book_value_per_share s,
             m_dividend_per_share = dividend_per_share s \<rparr>"
    using assms
    unfolding calculate_all_metrics_def v1 v2 v3 v4 v5 v6 v7 v8 v9 v10 v11 v12 v13 v14 v15
      v16 v17 v18 v19 then_py_Inr
    by simp
  show "calculate_pe_ratio s = Inr (pe_ratio m)" by (simp add: m v1)
  show "calculate_pb_ratio s = Inr (pb_ratio m)" by (simp add: m v2)
  show "calculate_peg_ratio s = Inr (peg_ratio m)" by (simp add: m v3)
  show "calculate_price_to_sales s = Inr (price_to_sales m)" by (simp add: m v4)
  show "calculate_current_ratio s = Inr (current_ratio m)" by (simp add: m v13)
  show "calculate_debt_to_equity s = Inr (debt_to_equity m)" by (simp add: m v16)
  show "calculate_interest_coverage s = Inr (interest_coverage m)" by (simp add: m v19)
qed

lemma analyze_fields:
  assumes "analyze s = Inr a"
  shows "calculate_all_metrics s = Inr (a_metrics a)"
    and "a_signals a = generate_signals s (a_metrics a)"
    and "risk_score a = calculate_risk_score s (a_metrics a)"
    and "valuation_score a = calculate_valuation_score (a_metrics a)"
    and "quality_score a = calculate_quality_score (a_metrics a)"
    and "growth_score a = calculate_growth_score s (a_metrics a)"
    and "momentum_score a = calculate_momentum_score s"
    and "a_symbol a = symbol s"
proof -
  obtain m where m: "calculate_all_metrics s = Inr m"
    using calculate_all_metrics_returns by blast
  have a: "a = \<lparr> a_symbol = symbol s,
                a_metrics = m,
                a_signals = generate_signals s m,
                risk_score = calculate_risk_score s m,
                fundamental_strength = assess_fundamental_strength s m,
                valuation_score = calculate_valuation_score m,
                quality_score = calculate_quality_score m,
                growth_score = calculate_growth_score s m,
                momentum_score = calculate_momentum_score s \<rparr>"
    using assms unfolding analyze_def m by simp
  show "calculate_all_metrics s = Inr (a_metrics a)" by (simp add: a m)
  show "a_signals a = generate_signals s (a_metrics a)" by (simp add: a)
  show "risk_score a = calculate_risk_score s (a_metrics a)" by (simp add: a)
  show "valuation_score a = calculate_valuation_score (a_metrics a)" by (simp add: a)
  show "quality_score a = calculate_quality_score (a_metrics a)" by (simp add: a)
  show "growth_score a = calculate_growth_score s (a_metrics a)" by (simp add: a)
  show "momentum_score a = calculate_momentum_score s" by (simp add: a)
  show "a_symbol a = symbol s" by (simp add: a)
qed

text \<open>The signal list is a concatenation of independent blocks.\<close>

lemma if_append_same: "(if c then xs @ ys else xs) = xs @ (if c then ys else [])"
  by simp

lemma if_append_both: "(if c then xs @ ys else xs @ zs) = xs @ (if c then ys else zs)"
  by simp

lemma mem_if_single: "x \<in> set (if c then [a] else []) \<longleftrightarrow> c \<and> x = a"
  by auto

lemma mem_if_double:
  "x \<in> set (if c then [a] else if d then [b] else []) \<longleftrightarrow> (c \<and> x = a) \<or> (\<not> c \<and> d \<and> x = b)"
  by auto

lemmas signal_simps = if_append_same if_append_both mem_if_single mem_if_double

lemma generate_signals_pe:
  "''UNDERVALUED_PE'' \<in> set (generate_signals s m) \<longleftrightarrow> flt (pe_ratio m) (Fin 15)"
  "''OVERVALUED_PE'' \<in> set (generate_signals s m)
     \<longleftrightarrow> \<not> flt (pe_ratio m) (Fin 15) \<and> fgt (pe_ratio m) (Fin 30)"
  unfolding generate_signals_def Let_def
  by (simp_all only: signal_simps append_Nil set_append Un_iff, simp_all)

text \<open>
  Claim C6. For every record with \<open>eps \<le> 0\<close> the computed \<open>pe_ratio\<close> is \<open>+infinity\<close>,
  and the analysis of such a record never carries the signal \<open>UNDERVALUED_PE\<close>; the
  infinite ratio fires \<open>OVERVALUED_PE\<close> instead.
\<close>

theorem nonpositive_eps_pe_infinite:
  assumes "fle (eps s) (Fin 0)"
  shows "calculate_pe_ratio s = Inr PInf
       \<and> (\<exists>a. analyze s = Inr a
            \<and> pe_ratio (a_metrics a) = PInf
            \<and> ''UNDERVALUED_PE'' \<notin> set (a_signals a)
            \<and> ''OVERVALUED_PE'' \<in> set (a_signals a))"
proof -
  have pe: "calculate_pe_ratio s = Inr PInf"
    using assms by (simp add: calculate_pe_ratio_def)
  obtain a where a: "analyze s = Inr a"
    using analyze_returns by blast
  have "calculate_pe_ratio s = Inr (pe_ratio (a_metrics a))"
    using analyze_fields(1) [OF a] by (rule calculate_all_metrics_fields(1))
  with pe have inf: "pe_ratio (a_metrics a) = PInf"
    by simp
  have "''UNDERVALUED_PE'' \<notin> set (a_signals a)"
    unfolding analyze_fields(2) [OF a] generate_signals_pe inf by simp
  moreover have "''OVERVALUED_PE'' \<in> set (a_signals a)"
    unfolding analyze_fields(2) [OF a] generate_signals_pe inf by (simp add: fgt_def)
  ultimately show ?thesis
    using pe a inf by blast
qed

theorem nonpositive_eps_pe_infinite_witness:
  "fle (eps stock0) (Fin 0)
   \<and> calculate_pe_ratio stock0 = Inr PInf
   \<and> (\<exists>a. analyze stock0 = Inr a
        \<and> pe_ratio (a_metrics a) = PInf
        \<and> ''UNDERVALUED_PE'' \<notin> set (a_signals a)
        \<and> ''OVERVALUED_PE'' \<in> set (a_signals a))"
proof -
  have h: "fle (eps stock0) (Fin 0)"
    by (simp add: stock0_def)
  show ?thesis
    using h nonpositive_eps_pe_infinite [OF h] by blast
qed

text \<open>
  Claim C7. For every record with \<open>debt \<le> 0\<close>, the case \<open>debt = 0\<close> included, the
  computed \<open>interest_coverage\<close> is \<open>+infinity\<close>: the guard is \<open>debt <= 0\<close>.
\<close>

theorem nonpositive_debt_interest_coverage_infinite:
  assumes "fle (debt s) (Fin 0)"
  shows "calculate_interest_coverage s = Inr PInf
       \<and> (\<exists>m. calculate_all_metrics s = Inr m \<and> interest_coverage m = PInf)"
proof -
  have ic: "calculate_interest_coverage s = Inr PInf"
    using assms by (simp add: calculate_interest_coverage_def)
  obtain m where m: "calculate_all_metrics s = Inr m"
    using calculate_all_metrics_returns by blast
  have "interest_coverage m = PInf"
    using calculate_all_metrics_fields(7) [OF m] ic by simp
  with ic m show ?thesis
    by blast
qed

theorem nonpositive_debt_interest_coverage_infinite_witness:
  "debt stock0 = Fin 0 \<and> fle (debt stock0) (Fin 0)
   \<and> calculate_interest_coverage stock0 = Inr PInf
   \<and> (\<exists>m. calculate_all_metrics stock0 = Inr m \<and> interest_coverage m = PInf)"
proof -
  have h: "fle (debt stock0) (Fin 0)"
    by (simp add: stock0_def)
  have "debt stock0 = Fin 0"
    by (simp add: stock0_def)
  then show ?thesis
    using h nonpositive_debt_interest_coverage_infinite [OF h] by blast
qed

section \<open>Evaluation on the example inputs\<close>

lemmas calculator_defs =
  calculate_all_metrics_def calculate_pe_ratio_def calculate_pb_ratio_def
  calculate_peg_ratio_def calculate_price_to_sales_def calculate_roe_def calculate_roa_def
  calculate_net_margin_def calculate_gross_margin_def calculate_operating_margin_def
  calculate_roic_def calculate_asset_turnover_def calculate_equity_multiplier_def
  calculate_current_ratio_def calculate_quick_ratio_def calculate_cash_ratio_def
  calculate_debt_to_equity_def calculate_debt_to_assets_def calculate_equity_ratio_def
  calculate_interest_coverage_def

lemma metrics_stock0:
  "calculate_all_metrics stock0 =
     Inr \<lparr> pe_ratio = PInf, pb_ratio = Fin (5 / 4), peg_ratio = PInf, price_to_sales = Fin 5,
           roe = Fin 12, roa = Fin 6, net_margin = Fin 12, gross_margin = Fin 12,
           operating_margin = Fin 12, roic = Fin (120 / 13 ),
           asset_turnover = Fin (1 / 2), equity_multiplier = Fin 2,
           current_ratio = Fin (3 / 10), quick_ratio = Fin (3 / 10), cash_ratio = Fin (3 / 10),
           debt_to_equity = Fin 0, debt_to_assets = Fin 0, equity_ratio = Fin 50,
           interest_coverage = PInf,
           m_revenue_growth = Fin 12, m_earnings_growth = Fin 8, m_dividend_yield = Fin 2,
           m_eps = Fin 0, m_book_value_per_share = Fin 40, m_dividend_per_share = Fin 1 \<rparr>"
  by (simp add: calculator_defs stock0_def Let_def fgt_def)

lemma value_score_stock0: "fst (screen_value stock0 (analysis_of stock0)) = 45"
  by (simp add: analysis_of_def analyze_def metrics_stock0 screen_value_def Let_def fgt_def fge_def)
    (simp add: stock0_def)

lemma mset_two_cases:
  assumes "mset xs = {#a, b#}"
  shows "xs = [a, b] \<or> xs = [b, a]"
proof -
  have "length xs = 2"
    using assms by (metis size_mset size_add_mset size_empty numeral_2_eq_2)
  then obtain x y where xs: "xs = [x, y]"
    by (cases xs; cases "tl xs") auto
  from assms show ?thesis
    unfolding xs by (auto simp: add_eq_conv_ex)
qed

lemma value_score_stock1: "fst (screen_value stock1 (analysis_of stock1)) = 100"
  by (simp add: analysis_of_def analyze_def calculator_defs screen_value_def Let_def fgt_def fge_def stock1_def)

section \<open>The screening engine\<close>

lemma analyze_analysis_of: "analyze s = Inr (analysis_of s)"
  using analyze_returns [of s] by (auto simp: analysis_of_def)

lemma screen_value_range: "0 \<le> fst (screen_value s a) \<and> fst (screen_value s a) \<le> 100"
  by (simp add: screen_value_def Let_def split: prod.splits if_splits)

lemma screen_growth_range: "0 \<le> fst (screen_growth s a) \<and> fst (screen_growth s a) \<le> 100"
  by (simp add: screen_growth_def Let_def split: prod.splits if_splits)

lemma screen_dividend_range: "0 \<le> fst (screen_dividend s a) \<and> fst (screen_dividend s a) \<le> 100"
  by (simp add: screen_dividend_def Let_def split: prod.splits if_splits)

lemma screen_momentum_range: "0 \<le> fst (screen_momentum s a) \<and> fst (screen_momentum s a) \<le> 100"
  by (simp add: screen_momentum_def Let_def split: prod.splits if_splits)

lemma screen_quality_range: "0 \<le> fst (screen_quality s a) \<and> fst (screen_quality s a) \<le> 100"
  by (simp add: screen_quality_def Let_def split: prod.splits if_splits)

lemma screen_contrarian_range:
  "0 \<le> fst (screen_contrarian s a) \<and> fst (screen_contrarian s a) \<le> 100"
  by (simp add: screen_contrarian_def Let_def split: prod.splits if_splits)

lemma strategies_Member:
  "strategies (Member VALUE_INVESTING) = Some screen_value"
  "strategies (Member GROWTH_INVESTING) = Some screen_growth"
  "strategies (Member DIVIDEND_INVESTING) = Some screen_dividend"
  "strategies (Member MOMENTUM_INVESTING) = Some screen_momentum"
  "strategies (Member QUALITY_INVESTING) = Some screen_quality"
  "strategies (Member CONTRARIAN) = Some screen_contrarian"
  by (simp_all add: strategies_def)

lemma strategies_Other: "strategies (Other x) = None"
  by (simp add: strategies_def)

lemma strategies_registered: "\<exists>f. strategies (Member k) = Some f"
  by (cases k) (simp_all add: strategies_Member)

lemma registered_scorer_range:
  assumes "strategies (Member k) = Some f"
  shows "0 \<le> fst (f s a) \<and> fst (f s a) \<le> 100"
  using assms screen_value_range screen_growth_range screen_dividend_range
    screen_momentum_range screen_quality_range screen_contrarian_range
  by (cases k) (auto simp: strategies_Member)

lemma screen_loop_eq:
  "screen_loop f strat t stocks acc =
     Inr (acc @ map (\<lambda>s. \<lparr> r_symbol = symbol s,
                             score = of_int (fst (f s (analysis_of s))),
                             strategy = strat,
                             r_metrics = a_metrics (analysis_of s),
                             r_signals = snd (f s (analysis_of s)) \<rparr>)
                  (filter (\<lambda>s. fge (Fin (of_int (fst (f s (analysis_of s))))) t) stocks))"
proof (induction stocks arbitrary: acc)
  case Nil
  show ?case by simp
next
  case (Cons s rest)
  show ?case
    by (simp add: analyze_analysis_of Cons.IH split: prod.splits)
qed

lemma sorted_by_score_reverse_descending:
  "sorted_wrt (\<lambda>x y. score x \<ge> score y) (sorted_by_score_reverse rs)"
proof -
  have "sorted (map (\<lambda>x. - score x) (sort_key (\<lambda>x. - score x) rs))"
    by (rule sorted_sort_key)
  then show ?thesis
    by (simp add: sorted_by_score_reverse_def sorted_map)
qed

lemma mset_sorted_by_score_reverse: "mset (sorted_by_score_reverse rs) = mset rs"
  by (simp add: sorted_by_score_reverse_def)

lemma set_sorted_by_score_reverse: "set (sorted_by_score_reverse rs) = set rs"
  by (simp add: sorted_by_score_reverse_def)

text \<open>
  Claim C3. For every list of records, every strategy kind \<open>k\<close> of the enumeration and
  every threshold, \<open>screen\<close> returns a list that holds exactly the results of the records
  whose strategy score is at least the threshold (as a multiset: one result for each
  such record, nothing else) and that is ordered by descending score. Every score is
  at least 0, so a threshold of 0 returns every input record; with a threshold of 100
  every returned score is exactly 100.
\<close>

theorem screen_selects_and_orders:
  "\<exists>f results.
     strategies (Member k) = Some f
     \<and> screen stocks (Member k) threshold = Inr results
     \<and> mset results =
         mset (map (\<lambda>s. \<lparr> r_symbol = symbol s,
                            score = of_int (fst (f s (analysis_of s))),
                            strategy = Member k,
                            r_metrics = a_metrics (analysis_of s),
                            r_signals = snd (f s (analysis_of s)) \<rparr>)
                 (filter (\<lambda>s. fge (Fin (of_int (fst (f s (analysis_of s))))) threshold) stocks))
     \<and> sorted_wrt (\<lambda>x y. score x \<ge> score y) results
     \<and> (\<forall>s \<in> set stocks. 0 \<le> fst (f s (analysis_of s)))
     \<and> (threshold = Fin 0 \<longrightarrow> mset (map r_symbol results) = mset (map symbol stocks))
     \<and> (threshold = Fin 100 \<longrightarrow> (\<forall>r \<in> set results. score r = 100))"
proof -
  obtain f where f: "strategies (Member k) = Some f"
    using strategies_registered by blast
  define mk where "mk = (\<lambda>s. \<lparr> r_symbol = symbol s,
                            score = of_int (fst (f s (analysis_of s))),
                            strategy = Member k,
                            r_metrics = a_metrics (analysis_of s),
                            r_signals = snd (f s (analysis_of s)) \<rparr>)"
  define pass where "pass = (\<lambda>s. fge (Fin (of_int (fst (f s (analysis_of s))))) threshold)"
  define results where "results = sorted_by_score_reverse (map mk (filter pass stocks))"
  have range: "0 \<le> fst (f s (analysis_of s)) \<and> fst (f s (analysis_of s)) \<le> 100" for s
    using registered_scorer_range [OF f] .
  have run: "screen stocks (Member k) threshold = Inr results"
    by (simp add: screen_def f screen_loop_eq results_def mk_def pass_def)
  have perm: "mset results = mset (map mk (filter pass stocks))"
    by (simp add: results_def mset_sorted_by_score_reverse)
  have ordered: "sorted_wrt (\<lambda>x y. score x \<ge> score y) results"
    unfolding results_def by (rule sorted_by_score_reverse_descending)
  have zero: "mset (map r_symbol results) = mset (map symbol stocks)" if "threshold = Fin 0"
  proof -
    have "pass s" for s
      using range [of s] that by (simp add: pass_def fge_def)
    then have "filter pass stocks = stocks"
      by simp
    then have all: "mset results = mset (map mk stocks)"
      using perm by simp
    have names: "map r_symbol (map mk stocks) = map symbol stocks"
      by (simp add: mk_def)
    have "mset (map r_symbol results) = image_mset r_symbol (mset results)"
      by simp
    also have "\<dots> = image_mset r_symbol (mset (map mk stocks))"
      by (simp only: all)
    also have "\<dots> = mset (map r_symbol (map mk stocks))"
      by (simp only: mset_map)
    finally show ?thesis
      by (simp only: names)
  qed
  have hundred: "\<forall>r \<in> set results. score r = 100" if "threshold = Fin 100"
  proof
    fix r
    assume "r \<in> set results"
    then have "r \<in> set (map mk (filter pass stocks))"
      by (simp add: results_def set_sorted_by_score_reverse)
    then obtain s where s: "pass s" "r = mk s"
      by auto
    from s(1) that have "100 \<le> fst (f s (analysis_of s))"
      by (simp add: pass_def fge_def)
    with range [of s] have "fst (f s (analysis_of s)) = 100"
      by simp
    then show "score r = 100"
      by (simp add: s(2) mk_def)
  qed
  show ?thesis
    using f run perm ordered range zero hundred
    unfolding mk_def pass_def by blast
qed

theorem screen_selects_and_orders_witness:
  "(\<exists>results. screen [stock0, stock1] (Member VALUE_INVESTING) (Fin 0) = Inr results
       \<and> map r_symbol results = [''BRGN'', ''ACME''] \<and> map score results = [100, 45])
   \<and> (\<exists>results. screen [stock0, stock1] (Member VALUE_INVESTING) (Fin 100) = Inr results
       \<and> map r_symbol results = [''BRGN''] \<and> map score results = [100])"
proof -
  have names: "symbol stock0 = ''ACME''" "symbol stock1 = ''BRGN''"
    by (simp_all add: stock0_def stock1_def)
  note scores = value_score_stock0 value_score_stock1
  have low: "\<exists>results. screen [stock0, stock1] (Member VALUE_INVESTING) (Fin 0) = Inr results
       \<and> map r_symbol results = [''BRGN'', ''ACME''] \<and> map score results = [100, 45]"
  proof -
    obtain f results where f: "strategies (Member VALUE_INVESTING) = Some f"
      and run: "screen [stock0, stock1] (Member VALUE_INVESTING) (Fin 0) = Inr results"
      and perm: "mset results =
         mset (map (\<lambda>s. \<lparr> r_symbol = symbol s,
                            score = of_int (fst (f s (analysis_of s))),
                            strategy = Member VALUE_INVESTING,
                            r_metrics = a_metrics (analysis_of s),
                            r_signals = snd (f s (analysis_of s)) \<rparr>)
                 (filter (\<lambda>s. fge (Fin (of_int (fst (f s (analysis_of s))))) (Fin 0))
                    [stock0, stock1]))"
      and ord: "sorted_wrt (\<lambda>x y. score x \<ge> score y) results"
      using screen_selects_and_orders [of VALUE_INVESTING "[stock0, stock1]" "Fin 0"] by blast
    have f_eq: "f = screen_value"
      using f by (simp add: strategies_Member)
    define r0 where "r0 = \<lparr> r_symbol = ''ACME'', score = 45, strategy = Member VALUE_INVESTING,
        r_metrics = a_metrics (analysis_of stock0),
        r_signals = snd (screen_value stock0 (analysis_of stock0)) \<rparr>"
    define r1 where "r1 = \<lparr> r_symbol = ''BRGN'', score = 100, strategy = Member VALUE_INVESTING,
        r_metrics = a_metrics (analysis_of stock1),
        r_signals = snd (screen_value stock1 (analysis_of stock1)) \<rparr>"
    have "mset results = {#r0, r1#}"
      using perm unfolding f_eq by (simp add: scores names fge_def r0_def r1_def)
    then have "results = [r0, r1] \<or> results = [r1, r0]"
      by (rule mset_two_cases)
    moreover have "results \<noteq> [r0, r1]"
      using ord by (auto simp: r0_def r1_def)
    ultimately have "results = [r1, r0]"
      by blast
    then show ?thesis
      using run by (simp add: r0_def r1_def)
  qed
  have high: "\<exists>results. screen [stock0, stock1] (Member VALUE_INVESTING) (Fin 100) = Inr results
       \<and> map r_symbol results = [''BRGN''] \<and> map score results = [100]"
  proof -
    obtain f results where f: "strategies (Member VALUE_INVESTING) = Some f"
      and run: "screen [stock0, stock1] (Member VALUE_INVESTING) (Fin 100) = Inr results"
      and perm: "mset results =
         mset (map (\<lambda>s. \<lparr> r_symbol = symbol s,
                            score = of_int (fst (f s (analysis_of s))),
                            strategy = Member VALUE_INVESTING,
                            r_metrics = a_metrics (analysis_of s),
                            r_signals = snd (f s (analysis_of s)) \<rparr>)
                 (filter (\<lambda>s. fge (Fin (of_int (fst (f s (analysis_of s))))) (Fin 100))
                    [stock0, stock1]))"
      using screen_selects_and_orders [of VALUE_INVESTING "[stock0, stock1]" "Fin 100"] by blast
    have f_eq: "f = screen_value"
      using f by (simp add: strategies_Member)
    have "mset results = {#\<lparr> r_symbol = ''BRGN'', score = 100,
        strategy = Member VALUE_INVESTING,
        r_metrics = a_metrics (analysis_of stock1),
        r_signals = snd (screen_value stock1 (analysis_of stock1)) \<rparr>#}"
      using perm unfolding f_eq by (simp add: scores names fge_def)
    then show ?thesis
      using run by simp
  qed
  from low high show ?thesis
    by blast
qed

text \<open>
  Claim C8. A strategy argument that is not one of the six members of the enumeration
  makes \<open>screen\<close> fail with a ValueError naming the strategy, whatever the records are
  (no default scorer is substituted); for each of the six members \<open>screen\<close> returns a
  result list and raises nothing.
\<close>

theorem screen_unknown_strategy:
  "screen stocks (Other x) threshold = Inl (ValueError (''Unknown strategy: '' @ x))
   \<and> (\<forall>k. \<exists>results. screen stocks (Member k) threshold = Inr results)"
proof -
  have "screen stocks (Other x) threshold = Inl (ValueError (''Unknown strategy: '' @ x))"
    by (simp add: screen_def strategies_Other)
  moreover have "\<exists>results. screen stocks (Member k) threshold = Inr results" for k
  proof -
    obtain f where "strategies (Member k) = Some f"
      using strategies_registered by blast
    then show ?thesis
      by (simp add: screen_def screen_loop_eq)
  qed
  ultimately show ?thesis
    by blast
qed

section \<open>Custom strategies\<close>

lemma eval_rules_eq:
  "eval_rules rs i s a (mc, sigs, out) =
     (mc + length (filter (\<lambda>r. r s a = Returns True) rs),
      sigs @ concat (map (\<lambda>(j, r). if r s a = Returns True then [''RULE_'' @ str_nat j] else [])
                      (enumerate i rs)),
      out @ concat (map (\<lambda>(j, r). case r s a of
                                     Raises e \<Rightarrow> [''Error evaluating rule '' @ str_nat j @ '': '' @ e]
                                   | Returns b \<Rightarrow> [])
                      (enumerate i rs)))"
proof (induction rs arbitrary: i mc sigs out)
  case Nil
  show ?case by simp
next
  case (Cons r rest)
  show ?case
  proof (cases "r s a")
    case (Returns b)
    then show ?thesis
      by (cases b) (simp_all add: Cons.IH)
  next
    case (Raises e)
    then show ?thesis
      by (simp add: Cons.IH)
  qed
qed

lemma custom_loop_eq:
  assumes "rs \<noteq> []"
  shows "custom_loop rs t stocks (res, out) =
     Inr (res @ map (\<lambda>s. \<lparr> r_symbol = symbol s,
                             score = spec_custom_score rs s,
                             strategy = Member VALUE_INVESTING,
                             r_metrics = a_metrics (analysis_of s),
                             r_signals =
                               concat (map (\<lambda>(j, r). if r s (analysis_of s) = Returns True
                                                      then [''RULE_'' @ str_nat j] else [])
                                         (enumerate 0 rs)) \<rparr>)
                  (filter (\<lambda>s. fge (Fin (spec_custom_score rs s)) t) stocks),
          out @ concat (map (\<lambda>s. concat (map (\<lambda>(j, r). case r s (analysis_of s) of
                                     Raises e \<Rightarrow> [''Error evaluating rule '' @ str_nat j @ '': '' @ e]
                                   | Returns b \<Rightarrow> [])
                      (enumerate 0 rs))) stocks))"
proof (induction stocks arbitrary: res out)
  case Nil
  show ?case by simp
next
  case (Cons s rest)
  show ?case
    using assms
    by (simp add: analyze_analysis_of eval_rules_eq py_truediv_def spec_custom_score_def
        Cons.IH Let_def)
qed

lemma custom_loop_strategy:
  assumes "custom_loop rs t stocks (res, out) = Inr (res', out')"
    and "\<forall>r \<in> set res. strategy r = Member VALUE_INVESTING"
  shows "\<forall>r \<in> set res'. strategy r = Member VALUE_INVESTING"
  using assms
proof (induction stocks arbitrary: res out)
  case Nil
  then show ?case by simp
next
  case (Cons s rest)
  obtain mc sigs out1 where ev: "eval_rules rs 0 s (analysis_of s) (0, [], out) = (mc, sigs, out1)"
    by (cases "eval_rules rs 0 s (analysis_of s) (0, [], out)") auto
  from Cons.prems(1) obtain q where q: "py_truediv mc (length rs) = Inr q"
    by (auto simp: analyze_analysis_of ev split: sum.splits)
  show ?case
  proof (cases "fge (Fin (round_double (q * 100))) t")
    case True
    with Cons.prems(1) have
      "custom_loop rs t rest
         (res @ [\<lparr> r_symbol = symbol s, score = round_double (q * 100), strategy = Member VALUE_INVESTING,
                   r_metrics = a_metrics (analysis_of s), r_signals = sigs \<rparr>], out1)
       = Inr (res', out')"
      by (simp add: analyze_analysis_of ev q Let_def)
    then show ?thesis
      by (rule Cons.IH) (use Cons.prems(2) in auto)
  next
    case False
    with Cons.prems(1) have "custom_loop rs t rest (res, out1) = Inr (res', out')"
      by (simp add: analyze_analysis_of ev q Let_def)
    then show ?thesis
      by (rule Cons.IH) (use Cons.prems(2) in auto)
  qed
qed

lemma str_nat_small:
  "str_nat 0 = ''0''" "str_nat 1 = ''1''" "str_nat (Suc 0) = ''1''" "str_nat 2 = ''2''"
  by (simp_all add: str_nat.simps digit_char_def)

lemma pe_ratio_stock0: "pe_ratio (a_metrics (analysis_of stock0)) = PInf"
  by (simp add: analysis_of_def analyze_def metrics_stock0)

lemma pe_ratio_stock1: "pe_ratio (a_metrics (analysis_of stock1)) = Fin 8"
  by (simp add: analysis_of_def analyze_def calculator_defs stock1_def Let_def fgt_def)

lemma create_demo:
  "create_strategy [] ''demo'' rules3
     = (''custom_demo_0'', [(''custom_demo_0'', \<lparr> cs_name = ''demo'', rules = rules3 \<rparr>)])"
  by (simp add: create_strategy_def str_nat_small Let_def)

text \<open>
  Values of the rounded score: one and two of three rules (Python prints them as
  33.33333333333333 and 66.66666666666666), and 29 of 50 rules, where the rounding
  brings the score below 58 (Python prints 57.99999999999999).
\<close>

lemma score_one_of_three:
  "round_double (round_double (1 / 3) * 100) = 2345624805922133 / 2 ^ 46"
  by code_simp

lemma score_two_of_three:
  "round_double (round_double (2 / 3) * 100) = 2345624805922133 / 2 ^ 45"
  by code_simp

lemma score_29_of_50:
  "round_double (round_double (29 / 50) * 100) = 8162774324609023 / 2 ^ 47"
  "round_double (round_double (29 / 50) * 100) < 58"
  by code_simp+

lemma rules3_scores:
  "spec_custom_score rules3 stock0 = 2345624805922133 / 2 ^ 46"
  "spec_custom_score rules3 stock1 = 2345624805922133 / 2 ^ 45"
  by (simp_all add: spec_custom_score_def rules3_def pe_ratio_stock0 pe_ratio_stock1
      score_one_of_three score_two_of_three)

text \<open>
  Claim C2. For a registered custom strategy with at least one rule, screening returns
  (it raises nothing) and gives every stock the score
  (count of rules returning true / total rule count) * 100: the results are exactly the
  stocks whose score of that form reaches the threshold, each with that score. A rule
  that raises is not counted, does not stop the evaluation of the later rules or of the
  later stocks, and leaves one printed line \<open>Error evaluating rule i: e\<close>; the printed
  lines are exactly these, stock by stock and rule by rule. The quotient and the product
  are float operations, each rounded to the nearest double. In particular a stock for
  which exactly two of three rules return true scores the double nearest to
  \<open>(2/3) * 100\<close> as the code computes it, \<open>2345624805922133 / 2^45\<close>, which Python
  prints as 66.66666666666666: it lies between 66.66 and 66.67, so it is 66.67 to two
  decimals and not 33.33.
\<close>

theorem custom_strategy_score:
  assumes "map_of custom_strategies strategy_id = Some strat" and "rules strat \<noteq> []"
  shows "\<exists>results out.
           screen_with_custom_strategy custom_strategies stocks strategy_id threshold
             = Inr (results, out)
         \<and> mset (map (\<lambda>r. (r_symbol r, score r)) results) =
             mset (map (\<lambda>s. (symbol s, spec_custom_score (rules strat) s))
                     (filter (\<lambda>s. fge (Fin (spec_custom_score (rules strat) s)) threshold)
                        stocks))
         \<and> out = concat (map (\<lambda>s. concat (map (\<lambda>(j, r).
                     case r s (analysis_of s) of
                       Raises e \<Rightarrow> [''Error evaluating rule '' @ str_nat j @ '': '' @ e]
                     | Returns b \<Rightarrow> [])
                   (enumerate 0 (rules strat)))) stocks)
         \<and> (\<forall>s \<in> set stocks.
               length (rules strat) = 3
               \<and> length (filter (\<lambda>r. r s (analysis_of s) = Returns True) (rules strat)) = 2
               \<longrightarrow> spec_custom_score (rules strat) s = 2345624805922133 / 2 ^ 45
                   \<and> 6666 / 100 < spec_custom_score (rules strat) s
                   \<and> spec_custom_score (rules strat) s < 6667 / 100)"
proof -
  define mk where "mk = (\<lambda>s. \<lparr> r_symbol = symbol s,
                             score = spec_custom_score (rules strat) s,
                             strategy = Member VALUE_INVESTING,
                             r_metrics = a_metrics (analysis_of s),
                             r_signals =
                               concat (map (\<lambda>(j, r). if r s (analysis_of s) = Returns True
                                                      then [''RULE_'' @ str_nat j] else [])
                                         (enumerate 0 (rules strat))) \<rparr>)"
  define kept where
    "kept = filter (\<lambda>s. fge (Fin (spec_custom_score (rules strat) s)) threshold) stocks"
  define results where "results = sorted_by_score_reverse (map mk kept)"
  define out where "out = concat (map (\<lambda>s. concat (map (\<lambda>(j, r).
                     case r s (analysis_of s) of
                       Raises e \<Rightarrow> [''Error evaluating rule '' @ str_nat j @ '': '' @ e]
                     | Returns b \<Rightarrow> [])
                   (enumerate 0 (rules strat)))) stocks)"
  have run: "screen_with_custom_strategy custom_strategies stocks strategy_id threshold
             = Inr (results, out)"
    by (simp add: screen_with_custom_strategy_def assms(1) custom_loop_eq [OF assms(2)]
        results_def out_def mk_def kept_def)
  have pairs: "map (\<lambda>r. (r_symbol r, score r)) (map mk kept)
               = map (\<lambda>s. (symbol s, spec_custom_score (rules strat) s)) kept"
    by (simp add: mk_def)
  have "mset (map (\<lambda>r. (r_symbol r, score r)) results)
        = image_mset (\<lambda>r. (r_symbol r, score r)) (mset results)"
    by simp
  also have "\<dots> = image_mset (\<lambda>r. (r_symbol r, score r)) (mset (map mk kept))"
    by (simp only: results_def mset_sorted_by_score_reverse)
  also have "\<dots> = mset (map (\<lambda>r. (r_symbol r, score r)) (map mk kept))"
    by (simp only: mset_map)
  finally have perm: "mset (map (\<lambda>r. (r_symbol r, score r)) results)
        = mset (map (\<lambda>s. (symbol s, spec_custom_score (rules strat) s)) kept)"
    by (simp only: pairs)
  have scenario: "\<forall>s \<in> set stocks.
               length (rules strat) = 3
               \<and> length (filter (\<lambda>r. r s (analysis_of s) = Returns True) (rules strat)) = 2
               \<longrightarrow> spec_custom_score (rules strat) s = 2345624805922133 / 2 ^ 45
                   \<and> 6666 / 100 < spec_custom_score (rules strat) s
                   \<and> spec_custom_score (rules strat) s < 6667 / 100"
    by (simp add: spec_custom_score_def score_two_of_three)
  show ?thesis
    using run perm scenario unfolding kept_def out_def by blast
qed

theorem custom_strategy_score_witness:
  "\<exists>results.
     screen_with_custom_strategy (snd (create_strategy [] ''demo'' rules3)) [stock0, stock1]
       ''custom_demo_0'' (Fin 50)
       = Inr (results, [''Error evaluating rule 1: boom'', ''Error evaluating rule 1: boom''])
     \<and> map (\<lambda>r. (r_symbol r, score r)) results = [(''BRGN'', 2345624805922133 / 2 ^ 45)]
     \<and> length (filter (\<lambda>r. r stock1 (analysis_of stock1) = Returns True) rules3) = 2
     \<and> length (filter (\<lambda>r. r stock1 (analysis_of stock1) = Raises ''boom'') rules3) = 1"
proof -
  let ?strat = "\<lparr> cs_name = ''demo'', rules = rules3 \<rparr>"
  let ?reg = "snd (create_strategy [] ''demo'' rules3)"
  have reg: "map_of ?reg ''custom_demo_0'' = Some ?strat"
    by (simp add: create_demo)
  have nonempty: "rules ?strat \<noteq> []"
    by (simp add: rules3_def)
  have names: "symbol stock0 = ''ACME''" "symbol stock1 = ''BRGN''"
    by (simp_all add: stock0_def stock1_def)
  have count: "length (filter (\<lambda>r. r stock1 (analysis_of stock1) = Returns True) rules3) = 2"
    "length (filter (\<lambda>r. r stock1 (analysis_of stock1) = Raises ''boom'') rules3) = 1"
    by (simp_all add: rules3_def pe_ratio_stock1)
  obtain results out where
    run: "screen_with_custom_strategy ?reg [stock0, stock1] ''custom_demo_0'' (Fin 50)
            = Inr (results, out)"
    and perm: "mset (map (\<lambda>r. (r_symbol r, score r)) results) =
             mset (map (\<lambda>s. (symbol s, spec_custom_score (rules ?strat) s))
                     (filter (\<lambda>s. fge (Fin (spec_custom_score (rules ?strat) s)) (Fin 50))
                        [stock0, stock1]))"
    and out: "out = concat (map (\<lambda>s. concat (map (\<lambda>(j, r).
                     case r s (analysis_of s) of
                       Raises e \<Rightarrow> [''Error evaluating rule '' @ str_nat j @ '': '' @ e]
                     | Returns b \<Rightarrow> [])
                   (enumerate 0 (rules ?strat)))) [stock0, stock1])"
    and scenario: "\<forall>s \<in> set [stock0, stock1].
               length (rules ?strat) = 3
               \<and> length (filter (\<lambda>r. r s (analysis_of s) = Returns True) (rules ?strat)) = 2
               \<longrightarrow> spec_custom_score (rules ?strat) s = 2345624805922133 / 2 ^ 45
                   \<and> 6666 / 100 < spec_custom_score (rules ?strat) s
                   \<and> spec_custom_score (rules ?strat) s < 6667 / 100"
    using custom_strategy_score [OF reg nonempty, of "[stock0, stock1]" "Fin 50"] by blast
  have s1: "spec_custom_score rules3 stock1 = 2345624805922133 / 2 ^ 45"
    using scenario count(1) by (simp add: rules3_def)
  have "mset (map (\<lambda>r. (r_symbol r, score r)) results) = {#(''BRGN'', 2345624805922133 / 2 ^ 45)#}"
    using perm by (simp add: rules3_scores(1) s1 names fge_def)
  then have pairs: "map (\<lambda>r. (r_symbol r, score r)) results = [(''BRGN'', 2345624805922133 / 2 ^ 45)]"
    by (simp only: mset_single_iff)
  have printed: "out = [''Error evaluating rule 1: boom'', ''Error evaluating rule 1: boom'']"
    unfolding out by (simp add: rules3_def enumerate_eq_zip str_nat_small upt_rec)
  show ?thesis
  proof (intro exI conjI)
    show "screen_with_custom_strategy ?reg [stock0, stock1] ''custom_demo_0'' (Fin 50)
       = Inr (results, [''Error evaluating rule 1: boom'', ''Error evaluating rule 1: boom''])"
      using run by (simp only: printed)
    show "map (\<lambda>r. (r_symbol r, score r)) results = [(''BRGN'', 2345624805922133 / 2 ^ 45)]"
      by (rule pairs)
    show "length (filter (\<lambda>r. r stock1 (analysis_of stock1) = Returns True) rules3) = 2"
      by (rule count(1))
    show "length (filter (\<lambda>r. r stock1 (analysis_of stock1) = Raises ''boom'') rules3) = 1"
      by (rule count(2))
  qed
qed

text \<open>
  Claim C9. If the strategy registered under the id has an empty rule list, then for
  every non-empty list of stocks the screening raises ZeroDivisionError: the score of the
  first stock is \<open>0 / 0\<close>.
\<close>

theorem empty_rules_zero_division:
  assumes "map_of custom_strategies strategy_id = Some strat"
    and "rules strat = []"
    and "stocks \<noteq> []"
  shows "screen_with_custom_strategy custom_strategies stocks strategy_id threshold
           = Inl ZeroDivisionError"
proof -
  obtain s rest where stocks: "stocks = s # rest"
    using assms(3) by (cases stocks) auto
  show ?thesis
    by (simp add: screen_with_custom_strategy_def assms(1,2) stocks analyze_analysis_of
        py_truediv_def)
qed

theorem empty_rules_zero_division_witness:
  "screen_with_custom_strategy (snd (create_strategy [] ''none'' [])) [stock0]
     (fst (create_strategy [] ''none'' [])) (Fin 50) = Inl ZeroDivisionError"
proof -
  have reg: "map_of (snd (create_strategy [] ''none'' [])) (fst (create_strategy [] ''none'' []))
               = Some \<lparr> cs_name = ''none'', rules = [] \<rparr>"
    by (simp add: create_strategy_def Let_def)
  show ?thesis
    by (rule empty_rules_zero_division [OF reg]) simp_all
qed

text \<open>
  Claim C10. Every result that \<open>screen_with_custom_strategy\<close> returns carries the
  strategy \<open>ScreeningStrategy.VALUE_INVESTING\<close>, whichever custom strategy was screened.
\<close>

theorem custom_results_tagged_value_investing:
  assumes "screen_with_custom_strategy custom_strategies stocks strategy_id threshold
             = Inr (results, out)"
  shows "\<forall>r \<in> set results. strategy r = Member VALUE_INVESTING"
proof -
  from assms obtain strat where strat: "map_of custom_strategies strategy_id = Some strat"
    by (auto simp: screen_with_custom_strategy_def split: option.splits)
  from assms obtain res where
    loop: "custom_loop (rules strat) threshold stocks ([], []) = Inr (res, out)"
    and results: "results = sorted_by_score_reverse res"
    by (auto simp: screen_with_custom_strategy_def strat split: sum.splits)
  have "\<forall>r \<in> set res. strategy r = Member VALUE_INVESTING"
    using loop by (rule custom_loop_strategy) simp
  then show ?thesis
    by (simp add: results set_sorted_by_score_reverse)
qed

theorem custom_results_tagged_value_investing_witness:
  "\<exists>results out.
     screen_with_custom_strategy (snd (create_strategy [] ''demo'' rules3)) [stock0, stock1]
       ''custom_demo_0'' (Fin 0) = Inr (results, out)
     \<and> length results = 2
     \<and> (\<forall>r \<in> set results. strategy r = Member VALUE_INVESTING)"
proof -
  have nonempty: "rules3 \<noteq> []"
    by (simp add: rules3_def)
  have pass: "fge (Fin (spec_custom_score rules3 stock0)) (Fin 0)"
    "fge (Fin (spec_custom_score rules3 stock1)) (Fin 0)"
    by (simp_all add: fge_def rules3_scores)
  have "\<exists>res out. custom_loop rules3 (Fin 0) [stock0, stock1] ([], []) = Inr (res, out)
           \<and> length res = 2"
    unfolding custom_loop_eq [OF nonempty] by (simp add: pass)
  then obtain res out where
    loop: "custom_loop rules3 (Fin 0) [stock0, stock1] ([], []) = Inr (res, out)"
    and len_res: "length res = 2"
    by blast
  define results where "results = sorted_by_score_reverse res"
  have run: "screen_with_custom_strategy (snd (create_strategy [] ''demo'' rules3))
            [stock0, stock1] ''custom_demo_0'' (Fin 0) = Inr (results, out)"
    by (simp add: screen_with_custom_strategy_def create_demo loop results_def
        del: custom_loop.simps)
  have len: "length results = 2"
    by (simp add: results_def sorted_by_score_reverse_def len_res)
  from custom_results_tagged_value_investing [OF run] run len show ?thesis
    by blast
qed

section \<open>Infinite metrics in the scoring bands\<close>

lemma flt_PInf [simp]: "\<not> flt PInf b"
  by (cases b) simp_all

lemma fgt_PInf_Fin [simp]: "fgt PInf (Fin x)"
  by (simp add: fgt_def)

lemma band_add_same: "(if c then x + a else x) = x + (if c then a else (0::int))"
  by simp

lemma band_add_both: "(if c then x + a else x + b) = x + (if c then a else (b::int))"
  by simp

lemma band_add_minus: "(if c then x + a else x - b) = x + (if c then a else - (b::int))"
  by simp

lemma band_minus_same: "(if c then x - a else x) = x + (if c then - a else (0::int))"
  by simp

lemmas band_simps = band_add_same band_add_both band_add_minus band_minus_same

lemma clamp_mono: "x \<le> y \<Longrightarrow> min 100 (max 0 x) \<le> min 100 (max 0 (y::int))"
  by simp

lemma cap_mono: "x \<le> y \<Longrightarrow> min 100 x \<le> min 100 (y::int)"
  by simp

text \<open>Reading a metric after one of the sentinel metrics has been replaced.\<close>

lemma metrics_update_select:
  "pe_ratio (m\<lparr>pe_ratio := v\<rparr>) = v"
  "pb_ratio (m\<lparr>pe_ratio := v\<rparr>) = pb_ratio m"
  "peg_ratio (m\<lparr>pe_ratio := v\<rparr>) = peg_ratio m"
  "price_to_sales (m\<lparr>pe_ratio := v\<rparr>) = price_to_sales m"
  "roe (m\<lparr>pe_ratio := v\<rparr>) = roe m"
  "roa (m\<lparr>pe_ratio := v\<rparr>) = roa m"
  "net_margin (m\<lparr>pe_ratio := v\<rparr>) = net_margin m"
  "debt_to_equity (m\<lparr>pe_ratio := v\<rparr>) = debt_to_equity m"
  "current_ratio (m\<lparr>pe_ratio := v\<rparr>) = current_ratio m"
  "pe_ratio (m\<lparr>pb_ratio := v\<rparr>) = pe_ratio m"
  "pb_ratio (m\<lparr>pb_ratio := v\<rparr>) = v"
  "peg_ratio (m\<lparr>pb_ratio := v\<rparr>) = peg_ratio m"
  "price_to_sales (m\<lparr>pb_ratio := v\<rparr>) = price_to_sales m"
  "roe (m\<lparr>pb_ratio := v\<rparr>) = roe m"
  "roa (m\<lparr>pb_ratio := v\<rparr>) = roa m"
  "net_margin (m\<lparr>pb_ratio := v\<rparr>) = net_margin m"
  "debt_to_equity (m\<lparr>pb_ratio := v\<rparr>) = debt_to_equity m"
  "current_ratio (m\<lparr>pb_ratio := v\<rparr>) = current_ratio m"
  "pe_ratio (m\<lparr>price_to_sales := v\<rparr>) = pe_ratio m"
  "pb_ratio (m\<lparr>price_to_sales := v\<rparr>) = pb_ratio m"
  "peg_ratio (m\<lparr>price_to_sales := v\<rparr>) = peg_ratio m"
  "price_to_sales (m\<lparr>price_to_sales := v\<rparr>) = v"
  "roe (m\<lparr>price_to_sales := v\<rparr>) = roe m"
  "roa (m\<lparr>price_to_sales := v\<rparr>) = roa m"
  "net_margin (m\<lparr>price_to_sales := v\<rparr>) = net_margin m"
  "debt_to_equity (m\<lparr>price_to_sales := v\<rparr>) = debt_to_equity m"
  "current_ratio (m\<lparr>price_to_sales := v\<rparr>) = current_ratio m"
  "pe_ratio (m\<lparr>peg_ratio := v\<rparr>) = pe_ratio m"
  "pb_ratio (m\<lparr>peg_ratio := v\<rparr>) = pb_ratio m"
  "peg_ratio (m\<lparr>peg_ratio := v\<rparr>) = v"
  "price_to_sales (m\<lparr>peg_ratio := v\<rparr>) = price_to_sales m"
  "roe (m\<lparr>peg_ratio := v\<rparr>) = roe m"
  "roa (m\<lparr>peg_ratio := v\<rparr>) = roa m"
  "net_margin (m\<lparr>peg_ratio := v\<rparr>) = net_margin m"
  "debt_to_equity (m\<lparr>peg_ratio := v\<rparr>) = debt_to_equity m"
  "current_ratio (m\<lparr>peg_ratio := v\<rparr>) = current_ratio m"
  "pe_ratio (m\<lparr>debt_to_equity := v\<rparr>) = pe_ratio m"
  "pb_ratio (m\<lparr>debt_to_equity := v\<rparr>) = pb_ratio m"
  "peg_ratio (m\<lparr>debt_to_equity := v\<rparr>) = peg_ratio m"
  "price_to_sales (m\<lparr>debt_to_equity := v\<rparr>) = price_to_sales m"
  "roe (m\<lparr>debt_to_equity := v\<rparr>) = roe m"
  "roa (m\<lparr>debt_to_equity := v\<rparr>) = roa m"
  "net_margin (m\<lparr>debt_to_equity := v\<rparr>) = net_margin m"
  "debt_to_equity (m\<lparr>debt_to_equity := v\<rparr>) = v"
  "current_ratio (m\<lparr>debt_to_equity := v\<rparr>) = current_ratio m"
  "pe_ratio (m\<lparr>current_ratio := v\<rparr>) = pe_ratio m"
  "pb_ratio (m\<lparr>current_ratio := v\<rparr>) = pb_ratio m"
  "peg_ratio (m\<lparr>current_ratio := v\<rparr>) = peg_ratio m"
  "price_to_sales (m\<lparr>current_ratio := v\<rparr>) = price_to_sales m"
  "roe (m\<lparr>current_ratio := v\<rparr>) = roe m"
  "roa (m\<lparr>current_ratio := v\<rparr>) = roa m"
  "net_margin (m\<lparr>current_ratio := v\<rparr>) = net_margin m"
  "debt_to_equity (m\<lparr>current_ratio := v\<rparr>) = debt_to_equity m"
  "current_ratio (m\<lparr>current_ratio := v\<rparr>) = v"
  "pe_ratio (m\<lparr>interest_coverage := v\<rparr>) = pe_ratio m"
  "pb_ratio (m\<lparr>interest_coverage := v\<rparr>) = pb_ratio m"
  "peg_ratio (m\<lparr>interest_coverage := v\<rparr>) = peg_ratio m"
  "price_to_sales (m\<lparr>interest_coverage := v\<rparr>) = price_to_sales m"
  "roe (m\<lparr>interest_coverage := v\<rparr>) = roe m"
  "roa (m\<lparr>interest_coverage := v\<rparr>) = roa m"
  "net_margin (m\<lparr>interest_coverage := v\<rparr>) = net_margin m"
  "debt_to_equity (m\<lparr>interest_coverage := v\<rparr>) = debt_to_equity m"
  "current_ratio (m\<lparr>interest_coverage := v\<rparr>) = current_ratio m"
  "pe_ratio (m\<lparr>quick_ratio := v\<rparr>) = pe_ratio m"
  "pb_ratio (m\<lparr>quick_ratio := v\<rparr>) = pb_ratio m"
  "peg_ratio (m\<lparr>quick_ratio := v\<rparr>) = peg_ratio m"
  "price_to_sales (m\<lparr>quick_ratio := v\<rparr>) = price_to_sales m"
  "roe (m\<lparr>quick_ratio := v\<rparr>) = roe m"
  "roa (m\<lparr>quick_ratio := v\<rparr>) = roa m"
  "net_margin (m\<lparr>quick_ratio := v\<rparr>) = net_margin m"
  "debt_to_equity (m\<lparr>quick_ratio := v\<rparr>) = debt_to_equity m"
  "current_ratio (m\<lparr>quick_ratio := v\<rparr>) = current_ratio m"
  "pe_ratio (m\<lparr>cash_ratio := v\<rparr>) = pe_ratio m"
  "pb_ratio (m\<lparr>cash_ratio := v\<rparr>) = pb_ratio m"
  "peg_ratio (m\<lparr>cash_ratio := v\<rparr>) = peg_ratio m"
  "price_to_sales (m\<lparr>cash_ratio := v\<rparr>) = price_to_sales m"
  "roe (m\<lparr>cash_ratio := v\<rparr>) = roe m"
  "roa (m\<lparr>cash_ratio := v\<rparr>) = roa m"
  "net_margin (m\<lparr>cash_ratio := v\<rparr>) = net_margin m"
  "debt_to_equity (m\<lparr>cash_ratio := v\<rparr>) = debt_to_equity m"
  "current_ratio (m\<lparr>cash_ratio := v\<rparr>) = current_ratio m"
  by simp_all

lemma with_metrics_select:
  "a_metrics (with_metrics a m) = m"
  "quality_score (with_metrics a m) = quality_score a"
  "valuation_score (with_metrics a m) = valuation_score a"
  "momentum_score (with_metrics a m) = momentum_score a"
  by (simp_all add: with_metrics_def)

text \<open>The bands of the analyzer scores.\<close>

lemma valuation_pe_inf:
  "calculate_valuation_score (m\<lparr>pe_ratio := PInf\<rparr>) \<le> calculate_valuation_score (m\<lparr>pe_ratio := v\<rparr>)"
  unfolding calculate_valuation_score_def Let_def band_simps
  by (intro clamp_mono add_right_mono add_left_mono) simp

lemma valuation_pb_inf:
  "calculate_valuation_score (m\<lparr>pb_ratio := PInf\<rparr>) \<le> calculate_valuation_score (m\<lparr>pb_ratio := v\<rparr>)"
  unfolding calculate_valuation_score_def Let_def band_simps
  by (intro clamp_mono add_right_mono add_left_mono) simp

lemma valuation_ps_inf:
  "calculate_valuation_score (m\<lparr>price_to_sales := PInf\<rparr>)
     \<le> calculate_valuation_score (m\<lparr>price_to_sales := v\<rparr>)"
  unfolding calculate_valuation_score_def Let_def band_simps
  by (intro clamp_mono add_right_mono add_left_mono) simp

lemma growth_peg_inf:
  "calculate_growth_score s (m\<lparr>peg_ratio := PInf\<rparr>) \<le> calculate_growth_score s (m\<lparr>peg_ratio := v\<rparr>)"
  unfolding calculate_growth_score_def Let_def band_simps
  by (intro clamp_mono add_right_mono add_left_mono) simp

lemma quality_de_inf:
  "calculate_quality_score (m\<lparr>debt_to_equity := PInf\<rparr>)
     \<le> calculate_quality_score (m\<lparr>debt_to_equity := v\<rparr>)"
  unfolding calculate_quality_score_def Let_def band_simps
  by (intro clamp_mono add_right_mono add_left_mono) simp

lemma risk_de_inf:
  "calculate_risk_score s (m\<lparr>debt_to_equity := v\<rparr>)
     \<le> calculate_risk_score s (m\<lparr>debt_to_equity := PInf\<rparr>)"
  unfolding calculate_risk_score_def Let_def band_simps
  by (intro clamp_mono add_right_mono add_left_mono) simp

lemma quality_cr_inf:
  "calculate_quality_score (m\<lparr>current_ratio := v\<rparr>)
     \<le> calculate_quality_score (m\<lparr>current_ratio := PInf\<rparr>)"
  unfolding calculate_quality_score_def Let_def band_simps
  by (intro clamp_mono add_right_mono add_left_mono) simp

lemma risk_cr_inf:
  "calculate_risk_score s (m\<lparr>current_ratio := PInf\<rparr>)
     \<le> calculate_risk_score s (m\<lparr>current_ratio := v\<rparr>)"
  unfolding calculate_risk_score_def Let_def band_simps
  by (intro clamp_mono add_right_mono add_left_mono) simp

text \<open>The bands of the fundamental strength rating.\<close>

lemma strength_label_mono:
  "x \<le> y \<Longrightarrow>
     strength_level (if 80 \<le> x then ''VERY_STRONG''
                     else if 60 \<le> x then ''STRONG''
                     else if 40 \<le> x then ''MODERATE''
                     else if 20 \<le> x then ''WEAK''
                     else ''VERY_WEAK'')
     \<le> strength_level (if 80 \<le> (y::int) then ''VERY_STRONG''
                       else if 60 \<le> y then ''STRONG''
                       else if 40 \<le> y then ''MODERATE''
                       else if 20 \<le> y then ''WEAK''
                       else ''VERY_WEAK'')"
  by (simp add: strength_level_def)

lemma strength_de_inf:
  "strength_level (assess_fundamental_strength s (m\<lparr>debt_to_equity := PInf\<rparr>))
     \<le> strength_level (assess_fundamental_strength s (m\<lparr>debt_to_equity := v\<rparr>))"
  unfolding assess_fundamental_strength_def Let_def band_simps metrics_update_select
  by (intro strength_label_mono add_right_mono add_left_mono) simp

lemma strength_cr_inf:
  "strength_level (assess_fundamental_strength s (m\<lparr>current_ratio := v\<rparr>))
     \<le> strength_level (assess_fundamental_strength s (m\<lparr>current_ratio := PInf\<rparr>))"
  unfolding assess_fundamental_strength_def Let_def band_simps metrics_update_select
  by (intro strength_label_mono add_right_mono add_left_mono) simp

lemma generate_signals_tags:
  "''OVERVALUED_BOOK'' \<in> set (generate_signals s m)
     \<longleftrightarrow> \<not> flt (pb_ratio m) (Fin 1) \<and> fgt (pb_ratio m) (Fin 3)"
  "''UNDERVALUED_BOOK'' \<in> set (generate_signals s m) \<longleftrightarrow> flt (pb_ratio m) (Fin 1)"
  "''STRONG_LIQUIDITY'' \<in> set (generate_signals s m) \<longleftrightarrow> fgt (current_ratio m) (Fin 2)"
  "''WEAK_LIQUIDITY'' \<in> set (generate_signals s m)
     \<longleftrightarrow> \<not> fgt (current_ratio m) (Fin 2) \<and> flt (current_ratio m) (Fin 1)"
  "''LOW_DEBT'' \<in> set (generate_signals s m) \<longleftrightarrow> flt (debt_to_equity m) (Fin (1 / 2))"
  "''HIGH_DEBT'' \<in> set (generate_signals s m)
     \<longleftrightarrow> \<not> flt (debt_to_equity m) (Fin (1 / 2)) \<and> fgt (debt_to_equity m) (Fin 2)"
  unfolding generate_signals_def Let_def
  by (simp_all only: signal_simps append_Nil set_append Un_iff, simp_all)

text \<open>
  The bands of the strategy scorers. A scorer threads the pair of score and signals
  through its blocks; each block adds a contribution to the score and appends to the
  signals.
\<close>

lemma pair_band_both:
  "(if c then (x + a, s @ t) else (x + b, s @ u))
     = (x + (if c then a else (b::int)), s @ (if c then t else u))"
  by simp

lemma pair_band_signal_then_none:
  "(if c then (x + a, s @ t) else (x + b, s))
     = (x + (if c then a else (b::int)), s @ (if c then t else []))"
  by simp

lemma pair_band_none_both:
  "(if c then (x + a, s) else (x + b, s)) = (x + (if c then a else (b::int)), s)"
  by simp

lemma pair_band_signal_else_same:
  "(if c then (x + a, s @ t) else (x, s))
     = (x + (if c then a else (0::int)), s @ (if c then t else []))"
  by simp

lemma pair_band_none_else_same:
  "(if c then (x + a, s) else (x, s)) = (x + (if c then a else (0::int)), s)"
  by simp

lemmas scorer_simps =
  pair_band_both pair_band_signal_then_none pair_band_none_both pair_band_signal_else_same
  pair_band_none_else_same band_simps prod.case fst_conv snd_conv
  with_metrics_select metrics_update_select

lemma value_pe_inf:
  "fst (screen_value s (with_metrics a (m\<lparr>pe_ratio := PInf\<rparr>)))
     \<le> fst (screen_value s (with_metrics a (m\<lparr>pe_ratio := v\<rparr>)))"
  unfolding screen_value_def Let_def scorer_simps
  by (intro cap_mono add_right_mono add_left_mono) simp

lemma value_pb_inf:
  "fst (screen_value s (with_metrics a (m\<lparr>pb_ratio := PInf\<rparr>)))
     \<le> fst (screen_value s (with_metrics a (m\<lparr>pb_ratio := v\<rparr>)))"
  unfolding screen_value_def Let_def scorer_simps
  by (intro cap_mono add_right_mono add_left_mono) simp

lemma value_ps_inf:
  "fst (screen_value s (with_metrics a (m\<lparr>price_to_sales := PInf\<rparr>)))
     \<le> fst (screen_value s (with_metrics a (m\<lparr>price_to_sales := v\<rparr>)))"
  unfolding screen_value_def Let_def scorer_simps
  by (intro cap_mono add_right_mono add_left_mono) simp

lemma value_signals_inf:
  "''VERY_LOW_PE'' \<notin> set (snd (screen_value s (with_metrics a (m\<lparr>pe_ratio := PInf\<rparr>))))"
  "''LOW_PE'' \<notin> set (snd (screen_value s (with_metrics a (m\<lparr>pe_ratio := PInf\<rparr>))))"
  "''LOW_PB'' \<notin> set (snd (screen_value s (with_metrics a (m\<lparr>pb_ratio := PInf\<rparr>))))"
  "''LOW_PS'' \<notin> set (snd (screen_value s (with_metrics a (m\<lparr>price_to_sales := PInf\<rparr>))))"
  unfolding screen_value_def Let_def scorer_simps
  by simp_all

lemma growth_scorer_peg_inf:
  "fst (screen_growth s (with_metrics a (m\<lparr>peg_ratio := PInf\<rparr>)))
     \<le> fst (screen_growth s (with_metrics a (m\<lparr>peg_ratio := v\<rparr>)))"
  "''GOOD_PEG'' \<notin> set (snd (screen_growth s (with_metrics a (m\<lparr>peg_ratio := PInf\<rparr>))))"
  unfolding screen_growth_def Let_def scorer_simps
  by (intro cap_mono add_right_mono add_left_mono) simp_all

lemma dividend_scorer_de_inf:
  "fst (screen_dividend s (with_metrics a (m\<lparr>debt_to_equity := PInf\<rparr>)))
     \<le> fst (screen_dividend s (with_metrics a (m\<lparr>debt_to_equity := v\<rparr>)))"
  unfolding screen_dividend_def Let_def scorer_simps
  by (intro cap_mono add_right_mono add_left_mono) simp

lemma quality_scorer_de_inf:
  "fst (screen_quality s (with_metrics a (m\<lparr>debt_to_equity := PInf\<rparr>)))
     \<le> fst (screen_quality s (with_metrics a (m\<lparr>debt_to_equity := v\<rparr>)))"
  "''VERY_LOW_DEBT''
     \<notin> set (snd (screen_quality s (with_metrics a (m\<lparr>debt_to_equity := PInf\<rparr>))))"
  unfolding screen_quality_def Let_def scorer_simps
  by (intro cap_mono add_right_mono add_left_mono) simp_all

lemma quality_scorer_cr_inf:
  "fst (screen_quality s (with_metrics a (m\<lparr>current_ratio := v\<rparr>)))
     \<le> fst (screen_quality s (with_metrics a (m\<lparr>current_ratio := PInf\<rparr>)))"
  "''STRONG_LIQUIDITY''
     \<in> set (snd (screen_quality s (with_metrics a (m\<lparr>current_ratio := PInf\<rparr>))))"
  unfolding screen_quality_def Let_def scorer_simps
  by (intro cap_mono add_right_mono add_left_mono) simp_all

lemma contrarian_pe_inf:
  "fst (screen_contrarian s (with_metrics a (m\<lparr>pe_ratio := PInf\<rparr>)))
     \<le> fst (screen_contrarian s (with_metrics a (m\<lparr>pe_ratio := v\<rparr>)))"
  "''EXTREMELY_UNDERVALUED''
     \<notin> set (snd (screen_contrarian s (with_metrics a (m\<lparr>pe_ratio := PInf\<rparr>))))"
  "''SIGNIFICANTLY_UNDERVALUED''
     \<notin> set (snd (screen_contrarian s (with_metrics a (m\<lparr>pe_ratio := PInf\<rparr>))))"
  unfolding screen_contrarian_def Let_def scorer_simps
  by (intro cap_mono add_right_mono add_left_mono) simp_all

lemma contrarian_pb_inf:
  "fst (screen_contrarian s (with_metrics a (m\<lparr>pb_ratio := PInf\<rparr>)))
     \<le> fst (screen_contrarian s (with_metrics a (m\<lparr>pb_ratio := v\<rparr>)))"
  unfolding screen_contrarian_def Let_def scorer_simps
  by (intro cap_mono add_right_mono add_left_mono) simp

text \<open>
  Metrics that no score, rating, signal rule or scorer reads: \<open>interest_coverage\<close>,
  \<open>quick_ratio\<close> and \<open>cash_ratio\<close>.
\<close>

lemmas output_defs =
  analyzer_outputs_def scorer_outputs_def generate_signals_def calculate_risk_score_def
  assess_fundamental_strength_def calculate_valuation_score_def calculate_quality_score_def
  calculate_growth_score_def screen_value_def screen_growth_def screen_dividend_def
  screen_momentum_def screen_quality_def screen_contrarian_def

lemma interest_coverage_unread:
  "analyzer_outputs s (m\<lparr>interest_coverage := v\<rparr>) = analyzer_outputs s m"
  "scorer_outputs s (with_metrics a (m\<lparr>interest_coverage := v\<rparr>))
     = scorer_outputs s (with_metrics a m)"
  unfolding output_defs
  by (simp_all only: with_metrics_select metrics_update_select)

lemma quick_ratio_unread:
  "analyzer_outputs s (m\<lparr>quick_ratio := v\<rparr>) = analyzer_outputs s m"
  "scorer_outputs s (with_metrics a (m\<lparr>quick_ratio := v\<rparr>))
     = scorer_outputs s (with_metrics a m)"
  unfolding output_defs
  by (simp_all only: with_metrics_select metrics_update_select)

lemma cash_ratio_unread:
  "analyzer_outputs s (m\<lparr>cash_ratio := v\<rparr>) = analyzer_outputs s m"
  "scorer_outputs s (with_metrics a (m\<lparr>cash_ratio := v\<rparr>))
     = scorer_outputs s (with_metrics a m)"
  unfolding output_defs
  by (simp_all only: with_metrics_select metrics_update_select)

lemma metrics_stock2:
  "calculate_all_metrics stock2 =
     Inr \<lparr> pe_ratio = PInf, pb_ratio = Fin (5 / 4), peg_ratio = PInf, price_to_sales = Fin 5,
           roe = Fin 6, roa = Fin 6, net_margin = Fin 12, gross_margin = Fin 12,
           operating_margin = Fin 12, roic = Fin 40,
           asset_turnover = Fin (1 / 2), equity_multiplier = Fin 1,
           current_ratio = PInf, quick_ratio = PInf, cash_ratio = PInf,
           debt_to_equity = Fin 0, debt_to_assets = Fin 0, equity_ratio = Fin 100,
           interest_coverage = PInf,
           m_revenue_growth = Fin 12, m_earnings_growth = Fin 8, m_dividend_yield = Fin 2,
           m_eps = Fin 0, m_book_value_per_share = Fin 40, m_dividend_per_share = Fin 1 \<rparr>"
  by (simp add: calculator_defs stock2_def stock0_def Let_def fgt_def)

text \<open>
  Claim C5 says that every band and signal rule routes a \<open>+infinity\<close> metric to its
  worst band, \<open>current_ratio\<close> included. That fails for \<open>current_ratio\<close>: a record
  without liabilities has an infinite current ratio, which satisfies the first test
  \<open>current_ratio > 2\<close>. Its analysis carries \<open>STRONG_LIQUIDITY\<close>, no liquidity risk is
  added (the risk of 10 comes from the return on equity), and its quality score is 100,
  whereas the same metrics with a current ratio of 1/2 score 70.
\<close>

theorem infinite_current_ratio_counterexample:
  "total_liabilities stock2 = Fin 0
   \<and> current_ratio (a_metrics (analysis_of stock2)) = PInf
   \<and> ''STRONG_LIQUIDITY'' \<in> set (a_signals (analysis_of stock2))
   \<and> risk_score (analysis_of stock2) = 10
   \<and> quality_score (analysis_of stock2) = 100
   \<and> calculate_quality_score (a_metrics (analysis_of stock2) \<lparr>current_ratio := Fin (1 / 2)\<rparr>)
       = 70"
  by (simp add: analysis_of_def analyze_def metrics_stock2 generate_signals_tags
      calculate_quality_score_def calculate_risk_score_def Let_def fgt_def)
    (simp add: stock2_def stock0_def)

text \<open>
  Claim C5 as amended. In every band and signal rule of the analyzer (signals, risk
  score, fundamental strength, valuation, quality and growth score) and of the six
  strategy scorers, for metrics \<open>m\<close>, a stock \<open>s\<close>, an analysis \<open>a\<close> and any other
  value \<open>v\<close> of the metric:
  \<^item> an infinite \<open>pe_ratio\<close>, \<open>pb_ratio\<close>, \<open>price_to_sales\<close>, \<open>peg_ratio\<close> or
    \<open>debt_to_equity\<close> lands in the worst band of everything that reads it: the lowest
    valuation, growth and quality score, the highest risk score, the lowest strength
    rating and the lowest score of the value, growth, dividend, quality and contrarian
    scorers that the metric can give; the signals are \<open>OVERVALUED_PE\<close>,
    \<open>OVERVALUED_BOOK\<close> and \<open>HIGH_DEBT\<close>, and none of the favourable ones;
  \<^item> an infinite \<open>current_ratio\<close> is the one exception: it satisfies the first test
    of its bands and lands in the best band, with the highest quality score, strength
    rating and quality-scorer score and the lowest risk score that the metric can give,
    and the signal \<open>STRONG_LIQUIDITY\<close>, never \<open>WEAK_LIQUIDITY\<close>;
  \<^item> \<open>interest_coverage\<close>, \<open>quick_ratio\<close> and \<open>cash_ratio\<close> are read by none of
    them: changing one of these metrics changes no output of the analyzer and of the
    scorers.
\<close>

theorem infinite_metric_bands:
  "(calculate_valuation_score (m\<lparr>pe_ratio := PInf\<rparr>)
      \<le> calculate_valuation_score (m\<lparr>pe_ratio := v\<rparr>)
    \<and> calculate_valuation_score (m\<lparr>pb_ratio := PInf\<rparr>)
      \<le> calculate_valuation_score (m\<lparr>pb_ratio := v\<rparr>)
    \<and> calculate_valuation_score (m\<lparr>price_to_sales := PInf\<rparr>)
      \<le> calculate_valuation_score (m\<lparr>price_to_sales := v\<rparr>)
    \<and> calculate_growth_score s (m\<lparr>peg_ratio := PInf\<rparr>)
      \<le> calculate_growth_score s (m\<lparr>peg_ratio := v\<rparr>)
    \<and> calculate_quality_score (m\<lparr>debt_to_equity := PInf\<rparr>)
      \<le> calculate_quality_score (m\<lparr>debt_to_equity := v\<rparr>)
    \<and> calculate_risk_score s (m\<lparr>debt_to_equity := v\<rparr>)
      \<le> calculate_risk_score s (m\<lparr>debt_to_equity := PInf\<rparr>)
    \<and> strength_level (assess_fundamental_strength s (m\<lparr>debt_to_equity := PInf\<rparr>))
      \<le> strength_level (assess_fundamental_strength s (m\<lparr>debt_to_equity := v\<rparr>)))
   \<and> (''OVERVALUED_PE'' \<in> set (generate_signals s (m\<lparr>pe_ratio := PInf\<rparr>))
    \<and> ''UNDERVALUED_PE'' \<notin> set (generate_signals s (m\<lparr>pe_ratio := PInf\<rparr>))
    \<and> ''OVERVALUED_BOOK'' \<in> set (generate_signals s (m\<lparr>pb_ratio := PInf\<rparr>))
    \<and> ''UNDERVALUED_BOOK'' \<notin> set (generate_signals s (m\<lparr>pb_ratio := PInf\<rparr>))
    \<and> ''HIGH_DEBT'' \<in> set (generate_signals s (m\<lparr>debt_to_equity := PInf\<rparr>))
    \<and> ''LOW_DEBT'' \<notin> set (generate_signals s (m\<lparr>debt_to_equity := PInf\<rparr>)))
   \<and> (fst (screen_value s (with_metrics a (m\<lparr>pe_ratio := PInf\<rparr>)))
      \<le> fst (screen_value s (with_metrics a (m\<lparr>pe_ratio := v\<rparr>)))
    \<and> fst (screen_value s (with_metrics a (m\<lparr>pb_ratio := PInf\<rparr>)))
      \<le> fst (screen_value s (with_metrics a (m\<lparr>pb_ratio := v\<rparr>)))
    \<and> fst (screen_value s (with_metrics a (m\<lparr>price_to_sales := PInf\<rparr>)))
      \<le> fst (screen_value s (with_metrics a (m\<lparr>price_to_sales := v\<rparr>)))
    \<and> fst (screen_growth s (with_metrics a (m\<lparr>peg_ratio := PInf\<rparr>)))
      \<le> fst (screen_growth s (with_metrics a (m\<lparr>peg_ratio := v\<rparr>)))
    \<and> fst (screen_dividend s (with_metrics a (m\<lparr>debt_to_equity := PInf\<rparr>)))
      \<le> fst (screen_dividend s (with_metrics a (m\<lparr>debt_to_equity := v\<rparr>)))
    \<and> fst (screen_quality s (with_metrics a (m\<lparr>debt_to_equity := PInf\<rparr>)))
      \<le> fst (screen_quality s (with_metrics a (m\<lparr>debt_to_equity := v\<rparr>)))
    \<and> fst (screen_contrarian s (with_metrics a (m\<lparr>pe_ratio := PInf\<rparr>)))
      \<le> fst (screen_contrarian s (with_metrics a (m\<lparr>pe_ratio := v\<rparr>)))
    \<and> fst (screen_contrarian s (with_metrics a (m\<lparr>pb_ratio := PInf\<rparr>)))
      \<le> fst (screen_contrarian s (with_metrics a (m\<lparr>pb_ratio := v\<rparr>))))
   \<and> (''VERY_LOW_PE'' \<notin> set (snd (screen_value s (with_metrics a (m\<lparr>pe_ratio := PInf\<rparr>))))
    \<and> ''LOW_PE'' \<notin> set (snd (screen_value s (with_metrics a (m\<lparr>pe_ratio := PInf\<rparr>))))
    \<and> ''LOW_PB'' \<notin> set (snd (screen_value s (with_metrics a (m\<lparr>pb_ratio := PInf\<rparr>))))
    \<and> ''LOW_PS''
        \<notin> set (snd (screen_value s (with_metrics a (m\<lparr>price_to_sales := PInf\<rparr>))))
    \<and> ''GOOD_PEG'' \<notin> set (snd (screen_growth s (with_metrics a (m\<lparr>peg_ratio := PInf\<rparr>))))
    \<and> ''VERY_LOW_DEBT''
        \<notin> set (snd (screen_quality s (with_metrics a (m\<lparr>debt_to_equity := PInf\<rparr>))))
    \<and> ''EXTREMELY_UNDERVALUED''
        \<notin> set (snd (screen_contrarian s (with_metrics a (m\<lparr>pe_ratio := PInf\<rparr>))))
    \<and> ''SIGNIFICANTLY_UNDERVALUED''
        \<notin> set (snd (screen_contrarian s (with_metrics a (m\<lparr>pe_ratio := PInf\<rparr>)))))
   \<and> (calculate_quality_score (m\<lparr>current_ratio := v\<rparr>)
      \<le> calculate_quality_score (m\<lparr>current_ratio := PInf\<rparr>)
    \<and> calculate_risk_score s (m\<lparr>current_ratio := PInf\<rparr>)
      \<le> calculate_risk_score s (m\<lparr>current_ratio := v\<rparr>)
    \<and> strength_level (assess_fundamental_strength s (m\<lparr>current_ratio := v\<rparr>))
      \<le> strength_level (assess_fundamental_strength s (m\<lparr>current_ratio := PInf\<rparr>))
    \<and> fst (screen_quality s (with_metrics a (m\<lparr>current_ratio := v\<rparr>)))
      \<le> fst (screen_quality s (with_metrics a (m\<lparr>current_ratio := PInf\<rparr>)))
    \<and> ''STRONG_LIQUIDITY'' \<in> set (generate_signals s (m\<lparr>current_ratio := PInf\<rparr>))
    \<and> ''WEAK_LIQUIDITY'' \<notin> set (generate_signals s (m\<lparr>current_ratio := PInf\<rparr>))
    \<and> ''STRONG_LIQUIDITY''
        \<in> set (snd (screen_quality s (with_metrics a (m\<lparr>current_ratio := PInf\<rparr>)))))
   \<and> (analyzer_outputs s (m\<lparr>interest_coverage := v\<rparr>) = analyzer_outputs s m
    \<and> scorer_outputs s (with_metrics a (m\<lparr>interest_coverage := v\<rparr>))
        = scorer_outputs s (with_metrics a m)
    \<and> analyzer_outputs s (m\<lparr>quick_ratio := v\<rparr>) = analyzer_outputs s m
    \<and> scorer_outputs s (with_metrics a (m\<lparr>quick_ratio := v\<rparr>))
        = scorer_outputs s (with_metrics a m)
    \<and> analyzer_outputs s (m\<lparr>cash_ratio := v\<rparr>) = analyzer_outputs s m
    \<and> scorer_outputs s (with_metrics a (m\<lparr>cash_ratio := v\<rparr>))
        = scorer_outputs s (with_metrics a m))"
proof -
  have pe: "''OVERVALUED_PE'' \<in> set (generate_signals s (m\<lparr>pe_ratio := PInf\<rparr>))"
    "''UNDERVALUED_PE'' \<notin> set (generate_signals s (m\<lparr>pe_ratio := PInf\<rparr>))"
    by (simp_all add: generate_signals_pe)
  have pb: "''OVERVALUED_BOOK'' \<in> set (generate_signals s (m\<lparr>pb_ratio := PInf\<rparr>))"
    "''UNDERVALUED_BOOK'' \<notin> set (generate_signals s (m\<lparr>pb_ratio := PInf\<rparr>))"
    by (simp_all add: generate_signals_tags)
  have de: "''HIGH_DEBT'' \<in> set (generate_signals s (m\<lparr>debt_to_equity := PInf\<rparr>))"
    "''LOW_DEBT'' \<notin> set (generate_signals s (m\<lparr>debt_to_equity := PInf\<rparr>))"
    by (simp_all add: generate_signals_tags)
  have cr: "''STRONG_LIQUIDITY'' \<in> set (generate_signals s (m\<lparr>current_ratio := PInf\<rparr>))"
    "''WEAK_LIQUIDITY'' \<notin> set (generate_signals s (m\<lparr>current_ratio := PInf\<rparr>))"
    by (simp_all add: generate_signals_tags)
  show ?thesis
    by (intro conjI valuation_pe_inf valuation_pb_inf valuation_ps_inf growth_peg_inf
        quality_de_inf risk_de_inf strength_de_inf pe pb de
        value_pe_inf value_pb_inf value_ps_inf growth_scorer_peg_inf dividend_scorer_de_inf
        quality_scorer_de_inf contrarian_pe_inf contrarian_pb_inf value_signals_inf
        quality_cr_inf risk_cr_inf strength_cr_inf quality_scorer_cr_inf cr
        interest_coverage_unread quick_ratio_unread cash_ratio_unread)
qed

section \<open>The criteria filter\<close>

lemma metric_map_identity:
  "(case map_of metric_map metric of Some a \<Rightarrow> a | None \<Rightarrow> metric) = metric"
  by (simp add: metric_map_def)

lemma criterion_value_spec:
  assumes "n \<notin> set oa"
  shows "criterion_value oa s m n = spec_metric_value s m n"
  using assms
  by (simp add: criterion_value_def spec_metric_value_def stock_getattr_def
      split: option.splits)

lemma spec_metric_value_numeric:
  assumes "spec_metric_value s m n = Some x" and "n \<noteq> ''symbol''"
  shows "\<exists>v. x = Num v"
proof (cases "metrics_get m n")
  case (Some v)
  with assms(1) show ?thesis
    by (auto simp: spec_metric_value_def)
next
  case None
  then have field: "map_of (stock_fields s) n = Some x"
    using assms(1) by (simp add: spec_metric_value_def)
  from None have not_metric:
    "n \<noteq> ''pe_ratio''" "n \<noteq> ''pb_ratio''" "n \<noteq> ''peg_ratio''" "n \<noteq> ''roe''" "n \<noteq> ''roa''"
    "n \<noteq> ''debt_to_equity''" "n \<noteq> ''current_ratio''" "n \<noteq> ''quick_ratio''"
    "n \<noteq> ''debt_to_assets''" "n \<noteq> ''interest_coverage''"
    by (auto simp: metrics_get_def split: if_splits)
  from field assms(2) not_metric show ?thesis
    by (auto simp: stock_fields_def split: if_splits)
qed

lemma check_criteria_step_unbounded:
  assumes "b_min b = None" and "b_max b = None"
  shows "check_criteria oa s m ((n, b) # rest) = check_criteria oa s m rest"
  using assms by (simp add: metric_map_identity split: option.splits)

lemma check_criteria_step_skipped:
  assumes "criterion_value oa s m n = None"
  shows "check_criteria oa s m ((n, b) # rest) = check_criteria oa s m rest"
  using assms by (simp add: metric_map_identity)

lemma check_criteria_step_numeric:
  assumes "criterion_value oa s m n = Some (Num v)"
  shows "check_criteria oa s m ((n, b) # rest) =
           (if (case b_min b of None \<Rightarrow> True | Some lo \<Rightarrow> \<not> flt v lo)
               \<and> (case b_max b of None \<Rightarrow> True | Some hi \<Rightarrow> \<not> fgt v hi)
            then check_criteria oa s m rest else Inr False)"
  using assms by (auto simp: metric_map_identity split: option.splits bool.splits)

lemma spec_criterion_passes_unbounded:
  assumes "b_min b = None" and "b_max b = None"
  shows "spec_criterion_passes s (n, b)"
  using assms by (simp add: spec_criterion_passes_def split: option.splits pyval.splits)

lemma check_criteria_spec:
  assumes "\<forall>c \<in> set criteria.
             (b_min (snd c) = None \<and> b_max (snd c) = None)
             \<or> (fst c \<noteq> ''symbol'' \<and> fst c \<notin> set oa)"
  shows "check_criteria oa s (a_metrics (analysis_of s)) criteria
           = Inr (\<forall>c \<in> set criteria. spec_criterion_passes s c)"
  using assms
proof (induction criteria)
  case Nil
  show ?case by simp
next
  case (Cons c rest)
  obtain n b where c: "c = (n, b)"
    by (cases c)
  let ?m = "a_metrics (analysis_of s)"
  have IH: "check_criteria oa s ?m rest = Inr (\<forall>c \<in> set rest. spec_criterion_passes s c)"
    using Cons by simp
  from Cons.prems c have
    "(b_min b = None \<and> b_max b = None) \<or> (n \<noteq> ''symbol'' \<and> n \<notin> set oa)"
    by simp
  then show ?case
  proof
    assume unb: "b_min b = None \<and> b_max b = None"
    then have "check_criteria oa s ?m (c # rest) = check_criteria oa s ?m rest"
      unfolding c by (intro check_criteria_step_unbounded) simp_all
    moreover have "spec_criterion_passes s c"
      unfolding c using unb by (intro spec_criterion_passes_unbounded) simp_all
    ultimately show ?thesis
      by (simp add: IH)
  next
    assume named: "n \<noteq> ''symbol'' \<and> n \<notin> set oa"
    then have same: "criterion_value oa s ?m n = spec_metric_value s ?m n"
      by (simp add: criterion_value_spec)
    show ?thesis
    proof (cases "spec_metric_value s ?m n")
      case None
      then have "check_criteria oa s ?m (c # rest) = check_criteria oa s ?m rest"
        unfolding c using same by (intro check_criteria_step_skipped) simp
      moreover have "spec_criterion_passes s c"
        unfolding c using None by (simp add: spec_criterion_passes_def)
      ultimately show ?thesis
        by (simp add: IH)
    next
      case (Some x)
      then obtain v where x: "x = Num v"
        using spec_metric_value_numeric named by blast
      have val: "criterion_value oa s ?m n = Some (Num v)"
        using same Some x by simp
      have "spec_criterion_passes s c
              \<longleftrightarrow> (case b_min b of None \<Rightarrow> True | Some lo \<Rightarrow> \<not> flt v lo)
                  \<and> (case b_max b of None \<Rightarrow> True | Some hi \<Rightarrow> \<not> fgt v hi)"
        unfolding c using Some x by (simp add: spec_criterion_passes_def)
      then show ?thesis
        unfolding c check_criteria_step_numeric [OF val] by (auto simp: IH)
    qed
  qed
qed

lemma apply_criteria_loop_spec:
  assumes "\<forall>c \<in> set criteria.
             (b_min (snd c) = None \<and> b_max (snd c) = None)
             \<or> (fst c \<noteq> ''symbol'' \<and> fst c \<notin> set oa)"
  shows "apply_criteria_loop oa criteria stocks filtered
           = Inr (filtered @ filter (\<lambda>s. \<forall>c \<in> set criteria. spec_criterion_passes s c) stocks)"
proof (induction stocks arbitrary: filtered)
  case Nil
  show ?case by simp
next
  case (Cons s rest)
  show ?case
    by (simp add: analyze_analysis_of check_criteria_spec [OF assms] Cons.IH)
qed

lemma pe_ratio_examples:
  "pe_ratio (a_metrics (analysis_of stock_pe15)) = Fin 15"
  "pe_ratio (a_metrics (analysis_of stock_pe25)) = Fin 25"
  by (simp_all add: analysis_of_def analyze_def calculator_defs stock_pe15_def stock_pe25_def
      stock0_def Let_def fgt_def)

text \<open>
  A bound on a name that is no metric and no field but an attribute of the object, such
  as \<open>__dataclass_fields__\<close>, raises TypeError as well.
\<close>

lemma criteria_bound_on_other_attr:
  "apply_criteria cpython_attrs [stock0]
     [(''__dataclass_fields__'', \<lparr> b_min = Some (Fin 0), b_max = None \<rparr>)] = Inl TypeError"
  by (simp add: apply_criteria_def analyze_analysis_of metric_map_identity criterion_value_def
      metrics_get_def stock_getattr_def stock_fields_def cpython_attrs_def)

text \<open>
  Claim C4 is stated for every criteria mapping. It fails for a criterion that puts a
  bound on \<open>symbol\<close>: the name is not a metric, the record has a field of that name,
  its value is a string, and comparing it with the bound raises TypeError, so the filter
  returns no list at all.
\<close>

theorem criteria_filter_symbol_counterexample:
  "apply_criteria cpython_attrs [stock0]
     [(''symbol'', \<lparr> b_min = Some (Fin 0), b_max = None \<rparr>)] = Inl TypeError"
  by (simp add: apply_criteria_def analyze_analysis_of metric_map_identity criterion_value_def
      metrics_get_def stock_getattr_def stock_fields_def)

text \<open>
  Claim C4 as amended. Let every criterion that carries a minimum or a maximum name
  something other than \<open>symbol\<close> and other than a non-field attribute of the record
  object (the names in \<open>other_attrs\<close>: what instances inherit from \<open>object\<close> and what
  the dataclass decorator sets, such as \<open>__class__\<close> or \<open>__dataclass_fields__\<close>). Then
  for every list of records the filter returns, in input order, exactly the records for
  which every criterion passes, where a name is resolved first in the computed metrics,
  else as a record field, and a criterion whose name resolves to nothing is skipped.
  With \<open>{'pe_ratio': {'max': 20}}\<close> and two stocks of P/E 15 and 25 only the first is
  kept.
\<close>

theorem criteria_filter_conjunctive:
  assumes "\<forall>c \<in> set criteria.
             (b_min (snd c) = None \<and> b_max (snd c) = None)
             \<or> (fst c \<noteq> ''symbol'' \<and> fst c \<notin> set other_attrs)"
  shows "apply_criteria other_attrs stocks criteria
           = Inr (filter (\<lambda>s. \<forall>c \<in> set criteria. spec_criterion_passes s c) stocks)"
  by (simp add: apply_criteria_def apply_criteria_loop_spec [OF assms])

theorem criteria_filter_conjunctive_witness:
  "apply_criteria cpython_attrs [stock_pe15, stock_pe25]
     [(''pe_ratio'', \<lparr> b_min = None, b_max = Some (Fin 20) \<rparr>)] = Inr [stock_pe15]"
proof -
  let ?criteria = "[(''pe_ratio'', \<lparr> b_min = None, b_max = Some (Fin 20) \<rparr>)]"
  have named: "\<forall>c \<in> set ?criteria.
             (b_min (snd c) = None \<and> b_max (snd c) = None)
             \<or> (fst c \<noteq> ''symbol'' \<and> fst c \<notin> set cpython_attrs)"
    by (simp add: cpython_attrs_def)
  have keep: "spec_criterion_passes stock_pe15 (''pe_ratio'', \<lparr> b_min = None, b_max = Some (Fin 20) \<rparr>)"
    by (simp add: spec_criterion_passes_def spec_metric_value_def metrics_get_def
        pe_ratio_examples fgt_def)
  have drop: "\<not> spec_criterion_passes stock_pe25 (''pe_ratio'', \<lparr> b_min = None, b_max = Some (Fin 20) \<rparr>)"
    by (simp add: spec_criterion_passes_def spec_metric_value_def metrics_get_def
        pe_ratio_examples fgt_def)
  show ?thesis
    using criteria_filter_conjunctive [OF named, of "[stock_pe15, stock_pe25]"] keep drop
    by simp
qed

end
